theory Spec2Isabelle
  imports Main "HOL-Library.Word" "HOL-Library.Char_ord" "HOL-Library.List_Lexorder"
begin

section \<open>Pinecone: catalog loading and content classification\<close>

text \<open>
  A shallow embedding of \<^verbatim>\<open>src/pinecone.cpp\<close>. The program loads a catalog of known
  titles from a JSON document (\<^verbatim>\<open>loadJSONData\<close>), walks a directory tree
  (\<^verbatim>\<open>checkForContent\<close>) and prints one message per thing it finds. What the program
  prints is modelled as a list of events, one constructor per message of the source, in
  the order the source prints them (standard output and standard error are merged).
\<close>

subsection \<open>Errors\<close>

text \<open>
  Three ways in which a call of the source does not return normally:
  \<^item> \<open>RuntimeError msg\<close>: a \<^verbatim>\<open>std::runtime_error\<close> thrown by the source itself;
  \<^item> \<open>AssertionFailed\<close>: a precondition of a rapidjson accessor is violated
    (\<^verbatim>\<open>RAPIDJSON_ASSERT\<close>: \<^verbatim>\<open>GetString\<close> on a value that is no string,
    \<^verbatim>\<open>operator[]\<close> for a member that is absent, \<^verbatim>\<open>HasMember\<close> or
    \<^verbatim>\<open>MemberBegin\<close> on a value that is no object). In the library's default
    configuration this aborts the process; it is no C++ exception;
  \<^item> \<open>FilesystemError\<close>: a \<^verbatim>\<open>std::filesystem::filesystem_error\<close>, thrown by
    \<^verbatim>\<open>directory_iterator\<close> for what is no directory or cannot be listed, and by
    \<^verbatim>\<open>fs::exists\<close> for a path whose status cannot be read.
\<close>

datatype error = RuntimeError string | AssertionFailed | FilesystemError

definition bind_err :: "error + 'a \<Rightarrow> ('a \<Rightarrow> error + 'b) \<Rightarrow> error + 'b" where
  "bind_err m f = (case m of Inl e \<Rightarrow> Inl e | Inr x \<Rightarrow> f x)"

subsection \<open>Strings\<close>

text \<open>\<^verbatim>\<open>::tolower\<close> in the C locale: the letters A to Z move to a to z, every other
  character stays.\<close>

definition tolower :: "char \<Rightarrow> char" where
  "tolower c = (let n = (of_char c :: nat) in if 65 \<le> n \<and> n \<le> 90 then char_of (n + 32) else c)"

text \<open>\<^verbatim>\<open>std::transform(s.begin(), s.end(), s.begin(), ::tolower)\<close>\<close>

definition to_lower :: "string \<Rightarrow> string" where
  "to_lower s = map tolower s"

text \<open>\<^verbatim>\<open>std::string::find(c)\<close>: the index of the first occurrence, \<open>None\<close> for
  \<^verbatim>\<open>npos\<close>.\<close>

fun string_find :: "string \<Rightarrow> char \<Rightarrow> nat option" where
  "string_find [] c = None"
| "string_find (x # xs) c =
     (if x = c then Some 0 else map_option Suc (string_find xs c))"

text \<open>\<^verbatim>\<open>std::string::rfind(c)\<close>: the index of the last occurrence.\<close>

fun string_rfind :: "string \<Rightarrow> char \<Rightarrow> nat option" where
  "string_rfind [] c = None"
| "string_rfind (x # xs) c =
     (case string_rfind xs c of
        Some i \<Rightarrow> Some (Suc i)
      | None \<Rightarrow> (if x = c then Some 0 else None))"

text \<open>\<^verbatim>\<open>std::string::substr(pos)\<close> for \<open>pos \<le> size\<close>.\<close>

definition substr :: "string \<Rightarrow> nat \<Rightarrow> string" where
  "substr s pos = drop pos s"

text \<open>
  \<^verbatim>\<open>std::filesystem::path::extension()\<close> of a file name: empty for \<^verbatim>\<open>.\<close> and
  \<^verbatim>\<open>..\<close> and for a name without a period; a period that is the first character does
  not start an extension; otherwise the text from the last period to the end.
\<close>

definition path_extension :: "string \<Rightarrow> string" where
  "path_extension fname =
     (if fname = ''.'' \<or> fname = ''..'' then []
      else case string_rfind fname (CHR ''.'') of
             None \<Rightarrow> []
           | Some 0 \<Rightarrow> []
           | Some (Suc i) \<Rightarrow> substr fname (Suc i))"

text \<open>
  A \<^verbatim>\<open>std::string\<close> built from a \<^verbatim>\<open>const char*\<close>: the characters before the first
  NUL. A string of a JSON document may hold a NUL, and the source reads every string of
  the document through the pointer that \<^verbatim>\<open>GetString\<close> returns.
\<close>

definition c_str :: "string \<Rightarrow> string" where
  "c_str s = takeWhile (\<lambda>c. c \<noteq> CHR 0x00) s"

subsection \<open>std::map\<close>

text \<open>
  A \<^verbatim>\<open>std::map\<close> with string keys is kept as the list of its pairs in ascending key
  order, which is the order its iterators visit. \<open>map_assign\<close> is
  \<^verbatim>\<open>m[k] = v\<close> (insert, or overwrite the value of a key that is present) and
  \<open>map_find\<close> is \<^verbatim>\<open>m.find(k)\<close>, which reads only.
\<close>

type_synonym 'v std_map = "(string \<times> 'v) list"

fun map_assign :: "string \<Rightarrow> 'v \<Rightarrow> 'v std_map \<Rightarrow> 'v std_map" where
  "map_assign k v [] = [(k, v)]"
| "map_assign k v ((k', v') # m) =
     (if k = k' then (k, v) # m
      else if k < k' then (k, v) # (k', v') # m
      else (k', v') # map_assign k v m)"

definition map_find :: "'v std_map \<Rightarrow> string \<Rightarrow> 'v option" where
  "map_find m k = map_of m k"

subsection \<open>The catalog (lines 22 to 42)\<close>

record TitleUpdate =
  Name :: string
  SHA1 :: string

type_synonym ArchivedContent = "string std_map"

record TitleData =
  TitleName :: string
  ContentIDs :: "string list"
  TitleUpdates :: "TitleUpdate list"
  TitleUpdatesKnown :: "TitleUpdate list"
  Archived :: "ArchivedContent list"

record Titles =
  Titles :: "TitleData std_map"

subsection \<open>Parsed JSON (rapidjson values)\<close>

text \<open>
  A parsed document. An object keeps its members in document order; looking a member up
  by name (\<^verbatim>\<open>FindMember\<close>) finds the first one of that name. A text that fails to
  parse leaves the document null.
\<close>

datatype json =
    JNull
  | JBool bool
  | JNumber int
  | JString string
  | JArray "json list"
  | JObject "(string \<times> json) list"

fun IsObject :: "json \<Rightarrow> bool" where
  "IsObject (JObject ms) = True"
| "IsObject _ = False"

text \<open>\<^verbatim>\<open>v.GetString()\<close>, as the source uses it: converted to a \<^verbatim>\<open>std::string\<close>.\<close>

fun GetString :: "json \<Rightarrow> error + string" where
  "GetString (JString s) = Inr (c_str s)"
| "GetString _ = Inl AssertionFailed"

text \<open>\<^verbatim>\<open>v[name]\<close>\<close>

fun member :: "json \<Rightarrow> string \<Rightarrow> error + json" where
  "member (JObject ms) name =
     (case map_of ms name of None \<Rightarrow> Inl AssertionFailed | Some v \<Rightarrow> Inr v)"
| "member _ name = Inl AssertionFailed"

subsection \<open>loadJSONData (lines 44 to 131)\<close>

text \<open>Lines 88 to 91: the loop over the array \<^verbatim>\<open>"Content IDs"\<close>.\<close>

fun load_contentIDs :: "json list \<Rightarrow> error + string list" where
  "load_contentIDs [] = Inr []"
| "load_contentIDs (contentID # rest) =
     bind_err (GetString contentID) (\<lambda>s.
     bind_err (load_contentIDs rest) (\<lambda>r. Inr (s # r)))"

text \<open>Lines 98 to 100 (and 109 to 111): one update entry.\<close>

definition load_update :: "json \<Rightarrow> error + TitleUpdate" where
  "load_update update =
     bind_err (member update ''Name'') (\<lambda>n.
     bind_err (GetString n) (\<lambda>name.
     bind_err (member update ''SHA1'') (\<lambda>h.
     bind_err (GetString h) (\<lambda>sha.
       Inr \<lparr>Name = name, SHA1 = sha\<rparr>))))"

text \<open>Lines 96 to 102 (and 107 to 113): the loop over an array of update entries.\<close>

fun load_updates :: "json list \<Rightarrow> error + TitleUpdate list" where
  "load_updates [] = Inr []"
| "load_updates (update # rest) =
     bind_err (load_update update) (\<lambda>u.
     bind_err (load_updates rest) (\<lambda>r. Inr (u # r)))"

text \<open>Lines 121 to 124: the members of one archived entry, written into a
  \<^verbatim>\<open>std::map\<close>.\<close>

fun load_archived_members :: "(string \<times> json) list \<Rightarrow> ArchivedContent \<Rightarrow> error + ArchivedContent" where
  "load_archived_members [] archivedContent = Inr archivedContent"
| "load_archived_members ((name, v) # rest) archivedContent =
     bind_err (GetString v) (\<lambda>s.
       load_archived_members rest (map_assign (c_str name) s archivedContent))"

text \<open>Lines 120 to 125: one archived entry; \<^verbatim>\<open>MemberBegin\<close> needs an object.\<close>

fun load_archived :: "json \<Rightarrow> error + ArchivedContent" where
  "load_archived (JObject ms) = load_archived_members ms []"
| "load_archived _ = Inl AssertionFailed"

text \<open>Lines 118 to 126: the loop over the array \<^verbatim>\<open>"Archived"\<close>.\<close>

fun load_archived_list :: "json list \<Rightarrow> error + ArchivedContent list" where
  "load_archived_list [] = Inr []"
| "load_archived_list (archived # rest) =
     bind_err (load_archived archived) (\<lambda>a.
     bind_err (load_archived_list rest) (\<lambda>r. Inr (a # r)))"

text \<open>
  Lines 75 to 127: one title. \<^verbatim>\<open>title.HasMember(k)\<close> needs \<^verbatim>\<open>title\<close> to be an
  object. A member that is absent or of the wrong type is skipped and leaves the field
  of the record as it was default-constructed.
\<close>

fun load_title :: "json \<Rightarrow> error + TitleData" where
  "load_title (JObject ms) =
     (let name = (case map_of ms ''Title Name'' of Some (JString s) \<Rightarrow> c_str s | _ \<Rightarrow> [])
      in bind_err (case map_of ms ''Content IDs'' of
                     Some (JArray xs) \<Rightarrow> load_contentIDs xs | _ \<Rightarrow> Inr []) (\<lambda>cids.
         bind_err (case map_of ms ''Title Updates'' of
                     Some (JArray xs) \<Rightarrow> load_updates xs | _ \<Rightarrow> Inr []) (\<lambda>tus.
         bind_err (case map_of ms ''Title Updates Known'' of
                     Some (JArray xs) \<Rightarrow> load_updates xs | _ \<Rightarrow> Inr []) (\<lambda>tuk.
         bind_err (case map_of ms ''Archived'' of
                     Some (JArray xs) \<Rightarrow> load_archived_list xs | _ \<Rightarrow> Inr []) (\<lambda>arch.
           Inr \<lparr>TitleName = name, ContentIDs = cids, TitleUpdates = tus,
                TitleUpdatesKnown = tuk, Archived = arch\<rparr>)))))"
| "load_title _ = Inl AssertionFailed"

text \<open>Lines 73 to 130: the loop over the members of \<^verbatim>\<open>"Titles"\<close>; line 78 reads
  the key as a C string, line 79 folds it to lower case and line 129 stores the record
  under it.\<close>

fun load_titles :: "(string \<times> json) list \<Rightarrow> Titles \<Rightarrow> error + Titles" where
  "load_titles [] titles = Inr titles"
| "load_titles ((key, title) # rest) titles =
     bind_err (load_title title) (\<lambda>data.
       load_titles rest
         (titles\<lparr>Titles := map_assign (to_lower (c_str key)) data (Titles titles)\<rparr>))"

text \<open>
  The catalog file is \<open>None\<close> when it cannot be opened and the parsed document
  otherwise. When the call fails, the caller ends the process, so the partly filled
  catalog is not returned.
\<close>

definition loadJSONData :: "json option \<Rightarrow> Titles \<Rightarrow> error + Titles" where
  "loadJSONData file titles =
     (case file of
        None \<Rightarrow> Inl (RuntimeError ''Failed to open file: data/id_database.json'')
      | Some jsonData \<Rightarrow>
          if jsonData = JNull \<or> \<not> IsObject jsonData
          then Inl (RuntimeError ''Failed to parse JSON or JSON is not an object'')
          else bind_err (member jsonData ''Titles'') (\<lambda>jsonTitles.
                 case jsonTitles of
                   JObject ms \<Rightarrow> load_titles ms titles
                 | _ \<Rightarrow> Inl (RuntimeError ''JSON does not contain 'Titles' object'')))"

subsection \<open>The file system\<close>

text \<open>
  What \<^verbatim>\<open>std::filesystem\<close> shows of a directory tree: a regular file with its
  bytes (\<open>None\<close> when the file cannot be opened for reading), a directory with its
  entries in the order \<^verbatim>\<open>directory_iterator\<close> visits them (\<open>None\<close> when the
  process has no permission on the directory: it can neither be listed nor searched), or
  anything else (a socket, a device). A file system maps the path of a scan root to the
  node it names, \<open>None\<close> when nothing exists there. Below a root, the source builds
  paths by appending \<^verbatim>\<open>"/"\<close> and a name; the model looks the name up among the
  entries of the node.
\<close>

type_synonym byte = "8 word"

datatype node =
    File "byte list option"
  | Dir "(string \<times> node) list option"
  | Other

type_synonym filesystem = "string \<Rightarrow> node option"

fun is_regular_file :: "node \<Rightarrow> bool" where
  "is_regular_file (File b) = True"
| "is_regular_file _ = False"

fun is_directory :: "node \<Rightarrow> bool" where
  "is_directory (Dir es) = True"
| "is_directory _ = False"

text \<open>\<^verbatim>\<open>fs::directory_iterator(p)\<close> for the path of a node: the entries of a directory
  that can be listed; a \<^verbatim>\<open>filesystem_error\<close> for a directory that cannot, and for
  what is no directory.\<close>

fun directory_iterator :: "node \<Rightarrow> error + (string \<times> node) list" where
  "directory_iterator (Dir (Some es)) = Inr es"
| "directory_iterator _ = Inl FilesystemError"

text \<open>
  \<^verbatim>\<open>fs::exists(p) && fs::is_directory(p)\<close> for
  \<^verbatim>\<open>p = entry.path().string() + "/" + name\<close>, where \<open>entry\<close> is a directory: the
  node of that name when it is a directory, \<open>None\<close> when nothing of that name exists or
  it is no directory. In a directory that cannot be searched the status of \<open>p\<close> cannot
  be read, and \<^verbatim>\<open>fs::exists\<close> throws a \<^verbatim>\<open>filesystem_error\<close>.
\<close>

definition subdirectory :: "node \<Rightarrow> string \<Rightarrow> error + node option" where
  "subdirectory entry name =
     (case entry of
        Dir (Some es) \<Rightarrow>
          (case map_of es name of
             Some (Dir d) \<Rightarrow> Inr (Some (Dir d))
           | _ \<Rightarrow> Inr None)
      | _ \<Rightarrow> Inl FilesystemError)"

subsection \<open>getSHA1Hash (lines 134 to 157)\<close>

text \<open>
  The digest itself is OpenSSL's and is a parameter \<open>sha1\<close> of the model: the function
  from the bytes absorbed by \<^verbatim>\<open>SHA1_Update\<close> to the bytes written by
  \<^verbatim>\<open>SHA1_Final\<close>. The context \<^verbatim>\<open>SHA_CTX\<close> is the bytes absorbed so far.
\<close>

text \<open>Lines 144 to 148: blocks of 4096 bytes while a whole block can be read, then the
  rest (\<^verbatim>\<open>gcount\<close> bytes).\<close>

function read_loop :: "byte list \<Rightarrow> byte list \<Rightarrow> byte list" where
  "read_loop remaining ctx =
     (if 4096 \<le> length remaining
      then read_loop (drop 4096 remaining) (ctx @ take 4096 remaining)
      else ctx @ remaining)"
  by pat_completeness auto
termination
  by (relation "measure (\<lambda>(remaining, ctx). length remaining)") auto

declare read_loop.simps [simp del]

definition hexdigit :: "nat \<Rightarrow> char" where
  "hexdigit n = ''0123456789abcdef'' ! n"

text \<open>Line 154: \<^verbatim>\<open>std::hex << std::setw(2) << std::setfill('0')\<close> of one byte.\<close>

definition hex_byte :: "byte \<Rightarrow> string" where
  "hex_byte b = [hexdigit (unat b div 16), hexdigit (unat b mod 16)]"

definition getSHA1Hash :: "(byte list \<Rightarrow> byte list) \<Rightarrow> string \<Rightarrow> node \<Rightarrow> error + string" where
  "getSHA1Hash sha1 filePath file =
     (case file of
        File (Some bytes) \<Rightarrow> Inr (concat (map hex_byte (sha1 (read_loop bytes []))))
      | _ \<Rightarrow> Inl (RuntimeError (''Failed to open file: '' @ filePath)))"

text \<open>\<^verbatim>\<open>e.what()\<close>\<close>

fun what :: "error \<Rightarrow> string" where
  "what (RuntimeError msg) = msg"
| "what FilesystemError = ''filesystem error''"
| "what AssertionFailed = []"

subsection \<open>Output\<close>

text \<open>
  One constructor per message of \<^verbatim>\<open>checkForContent\<close>, with the values printed in
  it, named after the outcome the message reports:
  \<^item> \<open>DirectoryNotFound directory\<close>: line 168;
  \<^item> \<open>FoundFolder titleName\<close>: line 182;
  \<^item> \<open>CheckingContentID contentID\<close>: line 195;
  \<^item> \<open>ContentIDKnown contentID\<close>: line 200;
  \<^item> \<open>ArchivedContentFound titleName path archivedName\<close>: line 217;
  \<^item> \<open>UnarchivedContent titleName path\<close>: line 221;
  \<^item> \<open>RecognizedBinary fileName\<close>: line 229;
  \<^item> \<open>UnrecognizedFile fileName\<close>: line 233;
  \<^item> \<open>UnknownContent titleName path\<close>: line 241;
  \<^item> \<open>NoContentArea titleID\<close>: line 248;
  \<^item> \<open>DigestError filePath what\<close>: line 270;
  \<^item> \<open>KnownUpdate titleName titleID name filePath fileHash\<close>: lines 285 to 288;
  \<^item> \<open>UnknownUpdate fileName fileHash filePath\<close>: lines 296 to 299;
  \<^item> \<open>NoUpdatesArea titleID\<close>: lines 307 and 308;
  \<^item> \<open>UnknownTitle titleID directory\<close>: lines 313 to 317.
  The others are the messages of \<^verbatim>\<open>loadJSONData\<close>, \<^verbatim>\<open>printStats\<close> and
  \<^verbatim>\<open>main\<close>.
\<close>

datatype event =
    DirectoryNotFound string
  | FoundFolder string
  | CheckingContentID string
  | ContentIDKnown string
  | ArchivedContentFound string string string
  | UnarchivedContent string string
  | RecognizedBinary string
  | UnrecognizedFile string
  | UnknownContent string string
  | NoContentArea string
  | DigestError string string
  | KnownUpdate string string string string string
  | UnknownUpdate string string string
  | NoUpdatesArea string
  | UnknownTitle string string
  | LoadingJSON
  | ErrorLoadingJSON string
  | Banner
  | Usage
  | StatisticsFor string string nat nat nat nat
  | NoDataFound string
  | XDriveNotFound
  | WindowsOnly
  | TDATANotFound
  | CheckingForContent

subsection \<open>checkForContent (lines 159 to 321)\<close>

text \<open>
  What a piece of the scan does: the messages it prints, and the exception that ends it
  when one is thrown (\<open>None\<close> when it runs to its end). \<open>run_all\<close> is a sequence of
  pieces, and so a loop over bodies that share no state: each runs after the other
  until one throws, and what was printed up to there stays printed.
\<close>

type_synonym run = "event list \<times> error option"

fun run_all :: "run list \<Rightarrow> run" where
  "run_all [] = ([], None)"
| "run_all ((out, Some e) # rest) = (out, Some e)"
| "run_all ((out, None) # rest) = (case run_all rest of (out', r) \<Rightarrow> (out @ out', r))"

text \<open>Lines 159 to 162\<close>

definition contains :: "string list \<Rightarrow> string \<Rightarrow> bool" where
  "contains vec val = (List.find (\<lambda>x. x = val) vec \<noteq> None)"

text \<open>Lines 203 to 212: the label of the first archived entry that has the key; the
  empty string when none has.\<close>

fun find_archivedName :: "ArchivedContent list \<Rightarrow> string \<Rightarrow> string" where
  "find_archivedName [] contentID = []"
| "find_archivedName (archived # rest) contentID =
     (case map_find archived contentID of
        Some label \<Rightarrow> label
      | None \<Rightarrow> find_archivedName rest contentID)"

text \<open>Lines 224 to 235: the body of the loop over the files of an unarchived content
  folder.\<close>

definition content_file_step :: "string \<times> node \<Rightarrow> event list" where
  "content_file_step f =
     (case f of (fileName, file) \<Rightarrow>
        if is_regular_file file
        then (let extension = path_extension fileName
              in if extension = ''.xbe'' \<or> extension = ''.xbx''
                 then [RecognizedBinary fileName]
                 else [UnrecognizedFile fileName])
        else [])"

text \<open>Lines 190 to 243: the body of the loop over the entries of \<^verbatim>\<open>$c\<close>. The
  files of a folder are listed (line 222) only when the folder holds known content that
  is not archived.\<close>

definition content_step :: "TitleData \<Rightarrow> string \<Rightarrow> string \<times> node \<Rightarrow> run" where
  "content_step data subDirDLC subContent =
     (case subContent of (folderName, folder) \<Rightarrow>
        if is_directory folder
        then (let contentID = to_lower folderName;
                  path = subDirDLC @ ''/'' @ folderName
              in run_all
                   [([CheckingContentID contentID], None),
                    (if contains (ContentIDs data) contentID
                     then run_all
                            [([ContentIDKnown contentID], None),
                             (let archivedName = find_archivedName (Archived data) contentID
                              in if archivedName \<noteq> []
                                 then ([ArchivedContentFound (TitleName data) path archivedName],
                                       None)
                                 else run_all
                                        [([UnarchivedContent (TitleName data) path], None),
                                         (case directory_iterator folder of
                                            Inr files \<Rightarrow>
                                              (concat (map content_file_step files), None)
                                          | Inl e \<Rightarrow> ([], Some e))])]
                     else ([UnknownContent (TitleName data) path], None))])
        else ([], None))"

text \<open>Lines 279 to 284: the name that is printed for a known update.\<close>

definition display_name :: "string \<Rightarrow> string" where
  "display_name name =
     (case string_find name (CHR '':'') of
        None \<Rightarrow> name
      | Some splitPosition \<Rightarrow> substr name (splitPosition + 1))"

text \<open>Lines 275 to 292: the first known update with the hash, when there is one.\<close>

fun find_knownUpdate :: "TitleUpdate list \<Rightarrow> string \<Rightarrow> TitleUpdate option" where
  "find_knownUpdate [] fileHash = None"
| "find_knownUpdate (knownUpdate # rest) fileHash =
     (if fileHash = SHA1 knownUpdate then Some knownUpdate
      else find_knownUpdate rest fileHash)"

text \<open>Lines 262 to 300: the file is hashed and the hash looked up. The handler of line
  268 ends the body of the loop (\<^verbatim>\<open>continue\<close>).\<close>

definition digest_classify ::
  "(byte list \<Rightarrow> byte list) \<Rightarrow> TitleData \<Rightarrow> string \<Rightarrow> string \<Rightarrow> string \<times> node \<Rightarrow> event list" where
  "digest_classify sha1 data titleID subDirUpdates f =
     (case f of (fileName, file) \<Rightarrow>
        (let filePath = subDirUpdates @ ''/'' @ fileName
         in case getSHA1Hash sha1 filePath file of
              Inl e \<Rightarrow> [DigestError filePath (what e)]
            | Inr fileHash \<Rightarrow>
                (case find_knownUpdate (TitleUpdatesKnown data) fileHash of
                   Some knownUpdate \<Rightarrow>
                     [KnownUpdate (TitleName data) titleID
                        (display_name (Name knownUpdate)) filePath fileHash]
                 | None \<Rightarrow> [UnknownUpdate fileName fileHash filePath])))"

text \<open>Lines 257 to 302: the body of the loop over the entries of \<^verbatim>\<open>$u\<close>.\<close>

definition update_file_step ::
  "(byte list \<Rightarrow> byte list) \<Rightarrow> TitleData \<Rightarrow> string \<Rightarrow> string \<Rightarrow> string \<times> node \<Rightarrow> event list" where
  "update_file_step sha1 data titleID subDirUpdates f =
     (if is_regular_file (snd f)
      then (let extension = path_extension (fst f)
            in if extension = ''.xbe'' \<or> extension = ''.xbx''
               then digest_classify sha1 data titleID subDirUpdates f
               else [])
      else [])"

text \<open>Lines 184 to 249: the folder \<^verbatim>\<open>$c\<close> of a title folder.\<close>

definition content_area :: "TitleData \<Rightarrow> string \<Rightarrow> string \<Rightarrow> node \<Rightarrow> run" where
  "content_area data titleID entryPath entry =
     (let subDirDLC = entryPath @ ''/$c''
      in case subdirectory entry ''$c'' of
           Inl e \<Rightarrow> ([], Some e)
         | Inr (Some dir) \<Rightarrow>
             (case directory_iterator dir of
                Inr cs \<Rightarrow> run_all (map (content_step data subDirDLC) cs)
              | Inl e \<Rightarrow> ([], Some e))
         | Inr None \<Rightarrow> ([NoContentArea titleID], None))"

text \<open>Lines 251 to 309: the folder \<^verbatim>\<open>$u\<close> of a title folder. The body of its loop
  throws nothing.\<close>

definition updates_area ::
  "(byte list \<Rightarrow> byte list) \<Rightarrow> TitleData \<Rightarrow> string \<Rightarrow> string \<Rightarrow> node \<Rightarrow> run" where
  "updates_area sha1 data titleID entryPath entry =
     (let subDirUpdates = entryPath @ ''/$u''
      in case subdirectory entry ''$u'' of
           Inl e \<Rightarrow> ([], Some e)
         | Inr (Some dir) \<Rightarrow>
             (case directory_iterator dir of
                Inr us \<Rightarrow>
                  (concat (map (update_file_step sha1 data titleID subDirUpdates) us), None)
              | Inl e \<Rightarrow> ([], Some e))
         | Inr None \<Rightarrow> ([NoUpdatesArea titleID], None))"

text \<open>Lines 182 to 309: a title folder that the catalog knows.\<close>

definition title_events ::
  "(byte list \<Rightarrow> byte list) \<Rightarrow> TitleData \<Rightarrow> string \<Rightarrow> string \<Rightarrow> node \<Rightarrow> run" where
  "title_events sha1 data titleID entryPath entry =
     run_all
       [([FoundFolder (TitleName data)], None),
        content_area data titleID entryPath entry,
        updates_area sha1 data titleID entryPath entry]"

text \<open>
  Lines 174 to 319: the body of the loop over the entries of the root. The catalog is
  passed by reference that is not \<^verbatim>\<open>const\<close>, so the body takes it and returns
  it, also when it throws; \<^verbatim>\<open>find\<close> reads it only.
\<close>

definition entry_step ::
  "(byte list \<Rightarrow> byte list) \<Rightarrow> string \<Rightarrow> string \<times> node \<Rightarrow> Titles \<Rightarrow> run \<times> Titles" where
  "entry_step sha1 directory e titles =
     (case e of (folderName, entry) \<Rightarrow>
        if is_directory entry \<and> length folderName = 8
        then (let titleID = to_lower folderName
              in case map_find (Titles titles) titleID of
                   Some data \<Rightarrow>
                     (title_events sha1 data titleID (directory @ ''/'' @ folderName) entry,
                      titles)
                 | None \<Rightarrow> (([UnknownTitle titleID directory], None), titles))
        else (([], None), titles))"

text \<open>Line 172: the loop over the entries of the root; an exception of its body ends
  it.\<close>

fun root_loop ::
  "(byte list \<Rightarrow> byte list) \<Rightarrow> string \<Rightarrow> (string \<times> node) list \<Rightarrow> Titles \<Rightarrow> run \<times> Titles" where
  "root_loop sha1 directory [] titles = (([], None), titles)"
| "root_loop sha1 directory (e # es) titles =
     (case entry_step sha1 directory e titles of
        ((out1, Some err), titles1) \<Rightarrow> ((out1, Some err), titles1)
      | ((out1, None), titles1) \<Rightarrow>
          (case root_loop sha1 directory es titles1 of
             ((out2, r), titles2) \<Rightarrow> ((out1 @ out2, r), titles2)))"

text \<open>The whole function: what it prints, the exception that leaves it when one does,
  and the catalog after the call.\<close>

definition checkForContent ::
  "(byte list \<Rightarrow> byte list) \<Rightarrow> filesystem \<Rightarrow> string \<Rightarrow> Titles \<Rightarrow> run \<times> Titles" where
  "checkForContent sha1 fs directory titles =
     (case fs directory of
        None \<Rightarrow> (([DirectoryNotFound directory], None), titles)
      | Some root \<Rightarrow>
          (case directory_iterator root of
             Inl e \<Rightarrow> (([], Some e), titles)
           | Inr es \<Rightarrow> root_loop sha1 directory es titles))"

subsection \<open>printStats (lines 323 to 354)\<close>

definition printTitleStats :: "string \<Rightarrow> TitleData \<Rightarrow> event" where
  "printTitleStats ident data =
     StatisticsFor ident (TitleName data) (length (ContentIDs data))
       (length (TitleUpdates data)) (length (TitleUpdatesKnown data))
       (length (Archived data))"

definition printStats :: "string \<Rightarrow> bool \<Rightarrow> Titles \<Rightarrow> event list" where
  "printStats titleID batch titles =
     (if batch
      then map (\<lambda>(ident, data). printTitleStats ident data) (Titles titles)
      else case map_find (Titles titles) titleID of
             None \<Rightarrow> [NoDataFound titleID]
           | Some data \<Rightarrow> [printTitleStats titleID data])"

subsection \<open>main (lines 356 to 443)\<close>

record flags =
  summarizeFlag :: bool
  titleIDFlag :: string
  fatxplorer :: bool

text \<open>Lines 361 to 384: the loop over the arguments; \<open>None\<close> when \<^verbatim>\<open>-help\<close> is met,
  where \<^verbatim>\<open>main\<close> returns at once.\<close>

fun parse_args :: "string list \<Rightarrow> flags \<Rightarrow> flags option" where
  "parse_args [] fl = Some fl"
| "parse_args (arg # rest) fl =
     (if arg = ''-summarize'' then parse_args rest (fl\<lparr>summarizeFlag := True\<rparr>)
      else if take 9 arg = ''-titleid='' then parse_args rest (fl\<lparr>titleIDFlag := drop 9 arg\<rparr>)
      else if arg = ''-fatxplorer'' then parse_args rest (fl\<lparr>fatxplorer := True\<rparr>)
      else if arg = ''-help'' then None
      else parse_args rest fl)"

text \<open>How the process ends: \<^verbatim>\<open>main\<close> returns a status, or the process is aborted
  (a failed assertion, or \<^verbatim>\<open>std::terminate\<close> for an exception that nothing
  catches), which the caller of the process sees as a status that is not zero.\<close>

datatype exit_status = Returned int | Aborted

definition nonzero_status :: "exit_status \<Rightarrow> bool" where
  "nonzero_status st = (st \<noteq> Returned 0)"

text \<open>What the process finds around it: the catalog file \<^verbatim>\<open>data/id_database.json\<close>
  (\<open>None\<close> when it cannot be opened) and the file system.\<close>

record world =
  catalog_file :: "json option"
  files :: filesystem

text \<open>The scan of a root, as \<^verbatim>\<open>main\<close> calls it: no handler surrounds the call,
  so an exception that leaves the scan ends the process.\<close>

definition run_scan ::
  "(byte list \<Rightarrow> byte list) \<Rightarrow> filesystem \<Rightarrow> string \<Rightarrow> Titles \<Rightarrow> event list \<times> exit_status" where
  "run_scan sha1 fs directory titles =
     (case checkForContent sha1 fs directory titles of
        ((out, None), titles') \<Rightarrow> (CheckingForContent # out, Returned 0)
      | ((out, Some e), titles') \<Rightarrow> (CheckingForContent # out, Aborted))"

text \<open>\<open>win32\<close> says whether the program was compiled with \<^verbatim>\<open>_WIN32\<close> defined
  (lines 413 to 426); \<open>argv\<close> is the arguments after the program name.\<close>

definition main ::
  "bool \<Rightarrow> (byte list \<Rightarrow> byte list) \<Rightarrow> string list \<Rightarrow> world \<Rightarrow> event list \<times> exit_status" where
  "main win32 sha1 argv w =
     (case parse_args argv \<lparr>summarizeFlag = False, titleIDFlag = [], fatxplorer = False\<rparr> of
        None \<Rightarrow> ([Usage], Returned 0)
      | Some fl \<Rightarrow>
          (case loadJSONData (catalog_file w) \<lparr>Titles = []\<rparr> of
             Inl (RuntimeError msg) \<Rightarrow> ([LoadingJSON, ErrorLoadingJSON msg], Returned 1)
           | Inl _ \<Rightarrow> ([LoadingJSON], Aborted)
           | Inr titles \<Rightarrow>
               (case (if titleIDFlag fl \<noteq> [] then (printStats (titleIDFlag fl) False titles, Returned 0)
                      else if summarizeFlag fl then (printStats [] True titles, Returned 0)
                      else if fatxplorer fl
                      then (if win32
                            then (if files w ''X:/'' \<noteq> None
                                  then run_scan sha1 (files w) ''X:/TDATA'' titles
                                  else ([XDriveNotFound], Returned 0))
                            else ([WindowsOnly], Returned 0))
                      else (if files w ''dump/TDATA'' = None
                            then ([TDATANotFound], Returned 1)
                            else run_scan sha1 (files w) ''dump/TDATA'' titles))
                of (out, st) \<Rightarrow> (LoadingJSON # Banner # out, st))))"

subsection \<open>The claims of the specification, in its words\<close>

text \<open>
  The specification's conditions under which building the catalog fails: the parsed input
  is not an object, it lacks a titles collection, or an update entry of a title (in the
  list of updates or of known updates) lacks a name or a hash field.
\<close>

definition spec_entry_lacks_field :: "json \<Rightarrow> bool" where
  "spec_entry_lacks_field update =
     (case update of
        JObject ms \<Rightarrow> map_of ms ''Name'' = None \<or> map_of ms ''SHA1'' = None
      | _ \<Rightarrow> True)"

definition spec_update_entries :: "json \<Rightarrow> json list" where
  "spec_update_entries title =
     (case title of
        JObject ms \<Rightarrow>
          (case map_of ms ''Title Updates'' of Some (JArray xs) \<Rightarrow> xs | _ \<Rightarrow> []) @
          (case map_of ms ''Title Updates Known'' of Some (JArray xs) \<Rightarrow> xs | _ \<Rightarrow> [])
      | _ \<Rightarrow> [])"

definition spec_malformed :: "json \<Rightarrow> bool" where
  "spec_malformed parsed =
     (case parsed of
        JObject ms \<Rightarrow>
          (case map_of ms ''Titles'' of
             Some (JObject ts) \<Rightarrow>
               list_ex (\<lambda>title. list_ex spec_entry_lacks_field (spec_update_entries title))
                 (map snd ts)
           | _ \<Rightarrow> True)
      | _ \<Rightarrow> True)"

text \<open>The specification's comparison of two identifiers, extensions or hashes without
  regard to letter case.\<close>

definition spec_equal_ignoring_case :: "string \<Rightarrow> string \<Rightarrow> bool" where
  "spec_equal_ignoring_case a b = (to_lower a = to_lower b)"

subsection \<open>The shape of a catalog that loads\<close>

fun is_string :: "json \<Rightarrow> bool" where
  "is_string (JString s) = True"
| "is_string _ = False"

text \<open>An update entry: an object whose members \<^verbatim>\<open>Name\<close> and \<^verbatim>\<open>SHA1\<close> are
  strings.\<close>

definition wf_update :: "json \<Rightarrow> bool" where
  "wf_update update =
     (case update of
        JObject ms \<Rightarrow>
          (case map_of ms ''Name'' of Some (JString n) \<Rightarrow> True | _ \<Rightarrow> False) \<and>
          (case map_of ms ''SHA1'' of Some (JString h) \<Rightarrow> True | _ \<Rightarrow> False)
      | _ \<Rightarrow> False)"

text \<open>An archived entry: an object whose values are strings.\<close>

definition wf_archived :: "json \<Rightarrow> bool" where
  "wf_archived archived =
     (case archived of
        JObject ms \<Rightarrow> list_all is_string (map snd ms)
      | _ \<Rightarrow> False)"

text \<open>A title: an object; where one of the four lists is present as an array, its
  elements have the shape the loop over it reads.\<close>

definition wf_title :: "json \<Rightarrow> bool" where
  "wf_title title =
     (case title of
        JObject ms \<Rightarrow>
          (case map_of ms ''Content IDs'' of
             Some (JArray xs) \<Rightarrow> list_all is_string xs | _ \<Rightarrow> True) \<and>
          (case map_of ms ''Title Updates'' of
             Some (JArray xs) \<Rightarrow> list_all wf_update xs | _ \<Rightarrow> True) \<and>
          (case map_of ms ''Title Updates Known'' of
             Some (JArray xs) \<Rightarrow> list_all wf_update xs | _ \<Rightarrow> True) \<and>
          (case map_of ms ''Archived'' of
             Some (JArray xs) \<Rightarrow> list_all wf_archived xs | _ \<Rightarrow> True)
      | _ \<Rightarrow> False)"

definition wf_catalog :: "json \<Rightarrow> bool" where
  "wf_catalog parsed =
     (case parsed of
        JObject ms \<Rightarrow>
          (case map_of ms ''Titles'' of
             Some (JObject ts) \<Rightarrow> list_all wf_title (map snd ts)
           | _ \<Rightarrow> False)
      | _ \<Rightarrow> False)"

subsection \<open>Example inputs\<close>

text \<open>A stand-in for the digest in the examples: the first twenty bytes of the input,
  padded with zero bytes.\<close>

definition example_sha1 :: "byte list \<Rightarrow> byte list" where
  "example_sha1 bytes = take 20 (bytes @ replicate 20 0)"

definition example_hash :: string where
  "example_hash = ''dead000000000000000000000000000000000000''"

definition other_hash :: string where
  "other_hash = ''0123456789abcdef0123456789abcdef01234567''"

definition example_data :: TitleData where
  "example_data =
     \<lparr>TitleName = ''Game X'',
      ContentIDs = [''cafe0001'', ''cafe0002''],
      TitleUpdates = [\<lparr>Name = ''XYZ: Title Update 2'', SHA1 = example_hash\<rparr>],
      TitleUpdatesKnown =
        [\<lparr>Name = ''Other'', SHA1 = other_hash\<rparr>,
         \<lparr>Name = ''XYZ: Title Update 2'', SHA1 = example_hash\<rparr>,
         \<lparr>Name = ''Update B'', SHA1 = example_hash\<rparr>],
      Archived =
        [ [(''beef0009'', ''Archive Z'')],
         [(''cafe0002'', ''Archive A'')],
         [(''cafe0002'', ''Archive B'')] ]\<rparr>"

definition example_titles :: Titles where
  "example_titles = \<lparr>Titles = [(''abcd1234'', example_data)]\<rparr>"

text \<open>The catalog document that loads to \<open>example_titles\<close>.\<close>

definition example_catalog :: json where
  "example_catalog =
     JObject [(''Titles'', JObject [(''ABCD1234'', JObject
       [(''Title Name'', JString ''Game X''),
        (''Content IDs'', JArray [JString ''cafe0001'', JString ''cafe0002'']),
        (''Title Updates'', JArray
           [JObject [(''Name'', JString ''XYZ: Title Update 2''), (''SHA1'', JString example_hash)] ]),
        (''Title Updates Known'', JArray
           [JObject [(''Name'', JString ''Other''), (''SHA1'', JString other_hash)],
            JObject [(''Name'', JString ''XYZ: Title Update 2''), (''SHA1'', JString example_hash)],
            JObject [(''Name'', JString ''Update B''), (''SHA1'', JString example_hash)] ]),
        (''Archived'', JArray
           [JObject [(''beef0009'', JString ''Archive Z'')],
            JObject [(''cafe0002'', JString ''Archive A'')],
            JObject [(''cafe0002'', JString ''Archive B'')] ])])])]"

text \<open>A catalog that writes a content identifier, the key of an archived entry and a
  hash in upper case.\<close>

definition upper_case_catalog :: json where
  "upper_case_catalog =
     JObject [(''Titles'', JObject [(''ABCD1234'', JObject
       [(''Title Name'', JString ''Game X''),
        (''Content IDs'', JArray [JString ''CAFE0001'', JString ''cafe0003'']),
        (''Title Updates Known'', JArray
           [JObject [(''Name'', JString ''Update A''),
                     (''SHA1'', JString ''DEAD000000000000000000000000000000000000'')] ]),
        (''Archived'', JArray [JObject [(''CAFE0003'', JString ''Archive C'')] ])])])]"

definition upper_case_data :: TitleData where
  "upper_case_data =
     \<lparr>TitleName = ''Game X'',
      ContentIDs = [''CAFE0001'', ''cafe0003''],
      TitleUpdates = [],
      TitleUpdatesKnown =
        [\<lparr>Name = ''Update A'', SHA1 = ''DEAD000000000000000000000000000000000000''\<rparr>],
      Archived = [ [(''CAFE0003'', ''Archive C'')] ]\<rparr>"

text \<open>A catalog in which a content identifier is a number.\<close>

definition number_id_catalog :: json where
  "number_id_catalog =
     JObject [(''Titles'', JObject [(''ABCD1234'', JObject
       [(''Title Name'', JString ''Game X''),
        (''Content IDs'', JArray [JNumber 1])])])]"

text \<open>A dump: a folder whose name is too short, a known title with content and updates,
  a title the catalog does not have and a file with a name of eight characters.\<close>

definition example_updates :: "(string \<times> node) list" where
  "example_updates =
     [(''default.xbe'', File (Some [0xDE, 0xAD])),
      (''locked.xbe'', File None),
      (''other.xbx'', File (Some [0x01])),
      (''notes.txt'', File (Some []))]"

definition example_title_folder :: node where
  "example_title_folder =
     Dir (Some
       [(''$c'', Dir (Some
           [(''CAFE0001'', Dir (Some [(''default.xbe'', File (Some [])),
                                     (''readme.txt'', File (Some []))])),
            (''cafe0002'', Dir (Some [])),
            (''beef0003'', Dir (Some []))])),
        (''$u'', Dir (Some example_updates))])"

definition example_root :: "(string \<times> node) list" where
  "example_root =
     [(''short'', Dir (Some [])),
      (''ABCD1234'', example_title_folder),
      (''ZZZZ9999'', Dir (Some [])),
      (''FILE8888'', File (Some []))]"

definition example_fs :: filesystem where
  "example_fs path =
     (if path = ''dump/TDATA'' then Some (Dir (Some example_root)) else None)"

text \<open>A dump in which the updates folder of the known title cannot be opened, and a
  second title folder comes after it.\<close>

definition locked_root :: "(string \<times> node) list" where
  "locked_root =
     [(''ABCD1234'', Dir (Some [(''$u'', Dir None)])),
      (''ZZZZ9999'', Dir (Some []))]"

definition locked_fs :: filesystem where
  "locked_fs path =
     (if path = ''dump/TDATA'' then Some (Dir (Some locked_root)) else None)"

definition example_world :: world where
  "example_world = \<lparr>catalog_file = Some example_catalog, files = example_fs\<rparr>"

text \<open>The same process on a machine without the dump and without a drive X.\<close>

definition empty_fs :: filesystem where
  "empty_fs path = None"

definition empty_world :: world where
  "empty_world = \<lparr>catalog_file = Some example_catalog, files = empty_fs\<rparr>"

text \<open>A machine with an empty drive X and no dump.\<close>

definition x_drive_fs :: filesystem where
  "x_drive_fs path = (if path = ''X:/'' then Some (Dir (Some [])) else None)"

definition x_drive_world :: world where
  "x_drive_world = \<lparr>catalog_file = Some example_catalog, files = x_drive_fs\<rparr>"


definition number_id_world :: world where
  "number_id_world = \<lparr>catalog_file = Some number_id_catalog, files = example_fs\<rparr>"

section \<open>Properties\<close>

subsection \<open>Auxiliary facts\<close>

lemma string_find_None: "string_find s c = None \<longleftrightarrow> c \<notin> set s"
  by (induction s) auto

lemma string_find_first:
  "c \<notin> set pre \<Longrightarrow> string_find (pre @ c # rest) c = Some (length pre)"
  by (induction pre) auto

lemma run_all_Cons:
  "run_all (r # rest) =
     (case snd r of
        Some e \<Rightarrow> r
      | None \<Rightarrow> (fst r @ fst (run_all rest), snd (run_all rest)))"
proof (cases r)
  case (Pair out thrown)
  then show ?thesis by (cases thrown) (simp_all add: case_prod_beta)
qed

lemma run_all_single: "run_all [r] = r"
proof (cases r)
  case (Pair out thrown)
  then show ?thesis by (cases thrown) simp_all
qed

lemma run_all_append:
  "\<forall>r \<in> set rs. snd r = None \<Longrightarrow>
   run_all (rs @ rest) = (concat (map fst rs) @ fst (run_all rest), snd (run_all rest))"
  by (induction rs) (simp_all add: run_all_Cons)

lemma run_all_filter_skip:
  "(\<And>x. \<not> P x \<Longrightarrow> f x = ([], None)) \<Longrightarrow>
   run_all (map f (filter P xs)) = run_all (map f xs)"
  by (induction xs) (auto simp: run_all_Cons split: option.splits)

lemma run_all_thrown:
  "\<forall>r \<in> set rs. snd r = None \<or> snd r = Some FilesystemError \<Longrightarrow>
   snd (run_all rs) = None \<or> snd (run_all rs) = Some FilesystemError"
  by (induction rs) (auto simp: run_all_Cons split: option.splits)

lemma directory_iterator_thrown: "directory_iterator n = Inl e \<Longrightarrow> e = FilesystemError"
  by (cases n rule: directory_iterator.cases) simp_all

lemma subdirectory_thrown: "subdirectory entry name = Inl e \<Longrightarrow> e = FilesystemError"
  by (auto simp: subdirectory_def split: node.splits option.splits)

lemma content_step_thrown:
  "snd (content_step data subDirDLC subContent) = None \<or>
   snd (content_step data subDirDLC subContent) = Some FilesystemError"
proof (cases subContent)
  case (Pair folderName folder)
  show ?thesis
  proof (cases "directory_iterator folder")
    case (Inl e)
    then have "e = FilesystemError" by (rule directory_iterator_thrown)
    then show ?thesis
      using Inl by (simp add: Pair content_step_def Let_def run_all_Cons)
  next
    case (Inr files)
    then show ?thesis
      by (simp add: Pair content_step_def Let_def run_all_Cons)
  qed
qed

lemma content_area_thrown:
  "snd (content_area data titleID entryPath entry) = None \<or>
   snd (content_area data titleID entryPath entry) = Some FilesystemError"
proof (cases "subdirectory entry ''$c''")
  case (Inl e)
  then show ?thesis
    using subdirectory_thrown [OF Inl] by (simp add: content_area_def)
next
  case (Inr found)
  show ?thesis
  proof (cases found)
    case None
    then show ?thesis using Inr by (simp add: content_area_def)
  next
    case (Some dir)
    show ?thesis
    proof (cases "directory_iterator dir")
      case (Inl e)
      then show ?thesis
        using Inr Some directory_iterator_thrown [OF Inl] by (simp add: content_area_def)
    next
      case (Inr cs)
      have "snd (run_all (map (content_step data (entryPath @ ''/$c'')) cs)) = None \<or>
            snd (run_all (map (content_step data (entryPath @ ''/$c'')) cs)) =
              Some FilesystemError"
        by (rule run_all_thrown) (simp add: content_step_thrown)
      then show ?thesis
        using \<open>subdirectory entry ''$c'' = Inr found\<close> Some Inr
        by (simp add: content_area_def)
    qed
  qed
qed

lemma updates_area_thrown:
  "snd (updates_area sha data titleID entryPath entry) = None \<or>
   snd (updates_area sha data titleID entryPath entry) = Some FilesystemError"
  by (auto simp: updates_area_def Let_def
      dest: subdirectory_thrown directory_iterator_thrown
      split: sum.splits option.splits)

lemma title_events_thrown:
  "snd (title_events sha data titleID entryPath entry) = None \<or>
   snd (title_events sha data titleID entryPath entry) = Some FilesystemError"
  unfolding title_events_def
  by (rule run_all_thrown) (simp add: content_area_thrown updates_area_thrown)

lemma entry_step_thrown:
  "snd (fst (entry_step sha directory e titles)) = None \<or>
   snd (fst (entry_step sha directory e titles)) = Some FilesystemError"
  by (cases e) (simp add: entry_step_def Let_def title_events_thrown split: option.splits)

lemma title_events_titles_output: "fst (title_events sha data titleID entryPath entry) \<noteq> []"
  by (simp add: title_events_def run_all_Cons)

lemma entry_step_titles: "snd (entry_step sha directory e titles) = titles"
  by (cases e) (simp add: entry_step_def Let_def split: option.splits)

lemma root_loop_run_all:
  "root_loop sha directory es titles =
     (run_all (map (\<lambda>e. fst (entry_step sha directory e titles)) es), titles)"
proof (induction es)
  case Nil
  show ?case by simp
next
  case (Cons e es)
  obtain out1 r1 where e1: "entry_step sha directory e titles = ((out1, r1), titles)"
    using entry_step_titles [of sha directory e titles]
    by (cases "entry_step sha directory e titles") auto
  show ?case using Cons e1 by (cases r1) (simp_all add: run_all_Cons case_prod_beta)
qed

lemma entry_step_skip:
  "\<not> (is_directory (snd e) \<and> length (fst e) = 8) \<Longrightarrow>
   entry_step sha directory e titles = (([], None), titles)"
  by (auto simp: entry_step_def split: prod.splits)


lemma entry_step_candidate:
  "is_directory (snd e) \<and> length (fst e) = 8 \<Longrightarrow>
   fst (fst (entry_step sha directory e titles)) \<noteq> []"
  by (cases e) (simp add: entry_step_def title_events_titles_output Let_def split: option.splits)

lemma string_rfind_None: "string_rfind s c = None \<longleftrightarrow> c \<notin> set s"
  by (induction s) (auto split: option.splits)

lemma string_rfind_last:
  "c \<notin> set ext \<Longrightarrow> string_rfind (base @ c # ext) c = Some (length base)"
  by (induction base) (auto simp: string_rfind_None split: option.splits)

lemma path_extension_suffix:
  assumes "base \<noteq> []" "CHR ''.'' \<notin> set ext" "ext \<noteq> []"
  shows "path_extension (base @ CHR ''.'' # ext) = CHR ''.'' # ext"
proof -
  obtain b bs where base: "base = b # bs" using assms(1) by (cases base) auto
  have "string_rfind (base @ CHR ''.'' # ext) (CHR ''.'') = Some (length base)"
    using assms(2) by (rule string_rfind_last)
  moreover have "base @ CHR ''.'' # ext \<noteq> ''.''" "base @ CHR ''.'' # ext \<noteq> ''..''"
    using assms(3) base by (cases bs; cases ext; simp)+
  ultimately show ?thesis
    by (simp add: path_extension_def substr_def base)
qed

lemma digest_classify_nonempty: "digest_classify sha data titleID sub f \<noteq> []"
  by (auto simp: digest_classify_def Let_def split: prod.splits sum.splits option.splits)

lemma read_loop_eq: "read_loop remaining ctx = ctx @ remaining"
proof (induction remaining ctx rule: read_loop.induct)
  case (1 remaining ctx)
  show ?case
  proof (cases "4096 \<le> length remaining")
    case True
    then show ?thesis using "1" by (subst read_loop.simps) simp
  next
    case False
    then show ?thesis by (subst read_loop.simps) simp
  qed
qed

lemma getSHA1Hash_File:
  "getSHA1Hash sha filePath (File (Some bytes)) = Inr (concat (map hex_byte (sha bytes)))"
  by (simp add: getSHA1Hash_def read_loop_eq)


lemma tolower_hexdigit: "n < 16 \<Longrightarrow> tolower (hexdigit n) = hexdigit n"
proof -
  assume "n < 16"
  then have "n \<in> set [0..<16]" by simp
  then show ?thesis
    by (auto simp: hexdigit_def tolower_def upt_rec)
qed

lemma to_lower_hex_byte: "to_lower (hex_byte b) = hex_byte b"
proof -
  have "unat b < 256" using unsigned_less [of b] by simp
  then have "unat b div 16 < 16" by simp
  then show ?thesis by (simp add: to_lower_def hex_byte_def tolower_hexdigit)
qed

lemma to_lower_hex: "to_lower (concat (map hex_byte bs)) = concat (map hex_byte bs)"
proof (induction bs)
  case Nil
  show ?case by (simp add: to_lower_def)
next
  case (Cons b bs)
  have "to_lower (hex_byte b @ concat (map hex_byte bs)) =
        to_lower (hex_byte b) @ to_lower (concat (map hex_byte bs))"
    by (simp add: to_lower_def)
  then show ?case using Cons by (simp add: to_lower_hex_byte)
qed

lemma find_knownUpdate_None:
  "find_knownUpdate us h = None \<longleftrightarrow> (\<forall>u \<in> set us. SHA1 u \<noteq> h)"
  by (induction us) auto

lemma find_knownUpdate_first:
  "\<forall>k \<in> set before. SHA1 k \<noteq> SHA1 u \<Longrightarrow>
   find_knownUpdate (before @ u # after) (SHA1 u) = Some u"
  by (induction before) auto

lemma find_archivedName_first:
  "\<forall>a \<in> set before. map_find a contentID = None \<Longrightarrow> map_find m contentID = Some label \<Longrightarrow>
   find_archivedName (before @ m # after) contentID = label"
  by (induction before) auto


lemma isl_bind_err: "isl (bind_err m f) \<longleftrightarrow> isl m \<or> isl (f (projr m))"
  by (cases m) (simp_all add: bind_err_def)

lemma isl_GetString: "isl (GetString v) \<longleftrightarrow> \<not> is_string v"
  by (cases v) simp_all

lemma load_contentIDs_ok: "isl (load_contentIDs xs) \<longleftrightarrow> \<not> list_all is_string xs"
  by (induction xs) (auto simp: isl_bind_err isl_GetString)

lemma load_update_ok: "isl (load_update update) \<longleftrightarrow> \<not> wf_update update"
proof (cases update)
  case (JObject ms)
  show ?thesis
    unfolding JObject load_update_def wf_update_def
    by (auto simp: isl_bind_err isl_GetString split: option.splits json.splits)
qed (simp_all add: load_update_def wf_update_def bind_err_def)

lemma load_updates_ok: "isl (load_updates xs) \<longleftrightarrow> \<not> list_all wf_update xs"
  by (induction xs) (auto simp: isl_bind_err load_update_ok)

lemma load_archived_members_ok:
  "isl (load_archived_members ms archivedContent) \<longleftrightarrow> \<not> list_all is_string (map snd ms)"
  by (induction ms arbitrary: archivedContent) (auto simp: isl_bind_err isl_GetString)

lemma load_archived_ok: "isl (load_archived archived) \<longleftrightarrow> \<not> wf_archived archived"
  by (cases archived) (simp_all add: wf_archived_def load_archived_members_ok)

lemma load_archived_list_ok: "isl (load_archived_list xs) \<longleftrightarrow> \<not> list_all wf_archived xs"
  by (induction xs) (auto simp: isl_bind_err load_archived_ok)

lemma array_field_ok:
  "(\<And>xs. isl (f xs) = (\<not> P xs)) \<Longrightarrow>
   isl (case x of Some (JArray xs) \<Rightarrow> f xs | _ \<Rightarrow> Inr []) =
   (\<not> (case x of Some (JArray xs) \<Rightarrow> P xs | _ \<Rightarrow> True))"
  by (auto split: option.splits json.splits)

lemma load_title_ok: "isl (load_title title) \<longleftrightarrow> \<not> wf_title title"
proof (cases title)
  case (JObject ms)
  show ?thesis
    unfolding JObject
    by (simp add: wf_title_def isl_bind_err Let_def
        array_field_ok [of load_contentIDs, OF load_contentIDs_ok]
        array_field_ok [of load_updates, OF load_updates_ok]
        array_field_ok [of load_archived_list, OF load_archived_list_ok])
qed (simp_all add: wf_title_def)

lemma load_titles_ok: "isl (load_titles ms titles) \<longleftrightarrow> \<not> list_all wf_title (map snd ms)"
  by (induction ms arbitrary: titles) (auto simp: isl_bind_err load_title_ok)

lemma loadJSONData_ok: "isl (loadJSONData (Some parsed) titles) \<longleftrightarrow> \<not> wf_catalog parsed"
proof (cases parsed)
  case (JObject ms)
  show ?thesis
  proof (cases "map_of ms ''Titles''")
    case None
    then show ?thesis
      unfolding JObject by (simp add: loadJSONData_def wf_catalog_def bind_err_def)
  next
    case (Some jsonTitles)
    then show ?thesis
      unfolding JObject
      by (cases jsonTitles) (simp_all add: loadJSONData_def wf_catalog_def bind_err_def load_titles_ok)
  qed
qed (simp_all add: loadJSONData_def wf_catalog_def)

lemma lacking_entry_not_wf: "spec_entry_lacks_field update \<Longrightarrow> \<not> wf_update update"
  by (cases update) (auto simp: spec_entry_lacks_field_def wf_update_def)

lemma array_entries:
  "x \<in> set (case m of Some (JArray xs) \<Rightarrow> xs | _ \<Rightarrow> []) \<Longrightarrow>
   \<exists>xs. m = Some (JArray xs) \<and> x \<in> set xs"
proof (cases m)
  case None
  assume "x \<in> set (case m of Some (JArray xs) \<Rightarrow> xs | _ \<Rightarrow> [])"
  then show ?thesis using None by simp
next
  case (Some v)
  assume "x \<in> set (case m of Some (JArray xs) \<Rightarrow> xs | _ \<Rightarrow> [])"
  then show ?thesis using Some by (cases v) simp_all
qed

lemma lacking_title_not_wf:
  assumes "update \<in> set (spec_update_entries title)" "spec_entry_lacks_field update"
  shows "\<not> wf_title title"
proof (cases title)
  case (JObject ms)
  have n: "\<not> wf_update update" using assms(2) by (rule lacking_entry_not_wf)
  from assms(1) have
    "update \<in> set (case map_of ms ''Title Updates'' of Some (JArray xs) \<Rightarrow> xs | _ \<Rightarrow> []) \<or>
     update \<in> set (case map_of ms ''Title Updates Known'' of Some (JArray xs) \<Rightarrow> xs | _ \<Rightarrow> [])"
    unfolding JObject spec_update_entries_def by simp
  then show ?thesis
  proof
    assume "update \<in> set (case map_of ms ''Title Updates'' of Some (JArray xs) \<Rightarrow> xs | _ \<Rightarrow> [])"
    then obtain xs where "map_of ms ''Title Updates'' = Some (JArray xs)" "update \<in> set xs"
      using array_entries by blast
    then show ?thesis using n unfolding JObject by (simp add: wf_title_def list_all_iff) blast
  next
    assume "update \<in> set (case map_of ms ''Title Updates Known'' of Some (JArray xs) \<Rightarrow> xs | _ \<Rightarrow> [])"
    then obtain xs where "map_of ms ''Title Updates Known'' = Some (JArray xs)" "update \<in> set xs"
      using array_entries by blast
    then show ?thesis using n unfolding JObject by (simp add: wf_title_def list_all_iff) blast
  qed
qed (use assms in \<open>simp_all add: spec_update_entries_def\<close>)

lemma spec_malformed_not_wf: "spec_malformed parsed \<Longrightarrow> \<not> wf_catalog parsed"
proof (cases parsed)
  case (JObject ms)
  assume m: "spec_malformed parsed"
  show ?thesis
  proof (cases "map_of ms ''Titles''")
    case None
    then show ?thesis by (simp add: JObject wf_catalog_def)
  next
    case (Some jsonTitles)
    show ?thesis
    proof (cases jsonTitles)
      case ts: (JObject ts)
      from m have "list_ex (\<lambda>title. list_ex spec_entry_lacks_field (spec_update_entries title))
                 (map snd ts)"
        using JObject Some ts by (simp add: spec_malformed_def)
      then obtain title update where
        "title \<in> set (map snd ts)" "update \<in> set (spec_update_entries title)"
        "spec_entry_lacks_field update"
        unfolding list_ex_iff by blast
      then have "\<not> list_all wf_title (map snd ts)"
        using lacking_title_not_wf unfolding list_all_iff by blast
      then show ?thesis
        using JObject Some ts by (simp add: wf_catalog_def)
    qed (use JObject Some in \<open>simp_all add: wf_catalog_def\<close>)
  qed
qed (simp_all add: wf_catalog_def)

lemma spec_malformed_fails:
  "spec_malformed parsed \<Longrightarrow> isl (loadJSONData (Some parsed) titles)"
  by (simp add: loadJSONData_ok spec_malformed_not_wf)




subsection \<open>File extensions\<close>

text \<open>
  Claim C1 says that the two executable suffixes are recognised without regard to letter
  case. The source compares the extension with \<^verbatim>\<open>==\<close> (lines 227 and 260) and folds
  nothing: a regular file named \<^verbatim>\<open>DEFAULT.XBE\<close>, whose extension equals
  \<^verbatim>\<open>.xbe\<close> up to letter case, is reported as an unknown file format in a content
  folder and is passed over in the updates folder.
\<close>

theorem extension_case_counterexample:
  "spec_equal_ignoring_case (path_extension ''DEFAULT.XBE'') ''.xbe'' \<and>
   content_file_step (''DEFAULT.XBE'', File (Some [])) = [UnrecognizedFile ''DEFAULT.XBE''] \<and>
   update_file_step example_sha1 example_data ''abcd1234'' ''dump/TDATA/ABCD1234/$u''
     (''DEFAULT.XBE'', File (Some [0xDE, 0xAD])) = []"
  by code_simp

text \<open>
  Claim C1 as amended. Extensions are compared exactly: a regular file of an unarchived
  content folder is reported as content exactly when its extension is \<^verbatim>\<open>.xbe\<close> or
  \<^verbatim>\<open>.xbx\<close>, in these lower-case letters, and as an unknown file format otherwise;
  a regular file of the updates folder is hashed and classified exactly when its
  extension is one of these two, and prints nothing otherwise. A name that ends in
  such a suffix after at least one character has that extension.
\<close>

theorem extension_match_exact:
  "is_regular_file file \<Longrightarrow>
   (content_file_step (fileName, file) = [RecognizedBinary fileName] \<longleftrightarrow>
      path_extension fileName = ''.xbe'' \<or> path_extension fileName = ''.xbx'') \<and>
   (content_file_step (fileName, file) = [UnrecognizedFile fileName] \<longleftrightarrow>
      \<not> (path_extension fileName = ''.xbe'' \<or> path_extension fileName = ''.xbx'')) \<and>
   (path_extension fileName = ''.xbe'' \<or> path_extension fileName = ''.xbx'' \<longrightarrow>
      update_file_step sha data titleID sub (fileName, file) =
        digest_classify sha data titleID sub (fileName, file) \<and>
      update_file_step sha data titleID sub (fileName, file) \<noteq> []) \<and>
   (\<not> (path_extension fileName = ''.xbe'' \<or> path_extension fileName = ''.xbx'') \<longrightarrow>
      update_file_step sha data titleID sub (fileName, file) = []) \<and>
   (base \<noteq> [] \<longrightarrow> path_extension (base @ ''.xbe'') = ''.xbe'' \<and>
                  path_extension (base @ ''.xbx'') = ''.xbx'')"
proof (intro conjI impI)
  assume reg: "is_regular_file file"
  show "content_file_step (fileName, file) = [RecognizedBinary fileName] \<longleftrightarrow>
      path_extension fileName = ''.xbe'' \<or> path_extension fileName = ''.xbx''"
    using reg by (simp add: content_file_step_def Let_def)
  show "content_file_step (fileName, file) = [UnrecognizedFile fileName] \<longleftrightarrow>
      \<not> (path_extension fileName = ''.xbe'' \<or> path_extension fileName = ''.xbx'')"
    using reg by (simp add: content_file_step_def Let_def)
  show "update_file_step sha data titleID sub (fileName, file) =
        digest_classify sha data titleID sub (fileName, file)"
    if "path_extension fileName = ''.xbe'' \<or> path_extension fileName = ''.xbx''"
    using reg that by (auto simp: update_file_step_def Let_def)
  then show "update_file_step sha data titleID sub (fileName, file) \<noteq> []"
    if "path_extension fileName = ''.xbe'' \<or> path_extension fileName = ''.xbx''"
    using that by (simp add: digest_classify_nonempty)
  show "update_file_step sha data titleID sub (fileName, file) = []"
    if "\<not> (path_extension fileName = ''.xbe'' \<or> path_extension fileName = ''.xbx'')"
    using that by (simp add: update_file_step_def Let_def)
  show "path_extension (base @ ''.xbe'') = ''.xbe''" if "base \<noteq> []"
    using path_extension_suffix [OF that, of "''xbe''"] by simp
  show "path_extension (base @ ''.xbx'') = ''.xbx''" if "base \<noteq> []"
    using path_extension_suffix [OF that, of "''xbx''"] by simp
qed

theorem extension_match_exact_witness:
  "is_regular_file (File (Some [])) \<and>
   content_file_step (''default.xbe'', File (Some [])) = [RecognizedBinary ''default.xbe''] \<and>
   update_file_step example_sha1 example_data ''abcd1234'' ''dump/TDATA/ABCD1234/$u''
     (''default.xbe'', File (Some [])) \<noteq> [] \<and>
   path_extension ''default.xbe'' = ''.xbe''"
proof -
  have reg: "is_regular_file (File (Some []))" by simp
  have ext: "path_extension ''default.xbe'' = ''.xbe''" by code_simp
  note t = extension_match_exact [OF reg, where fileName = "''default.xbe''"
      and sha = example_sha1 and data = example_data and titleID = "''abcd1234''"
      and sub = "''dump/TDATA/ABCD1234/$u''" and base = "''default''"]
  from t reg ext show ?thesis by auto
qed

subsection \<open>Content identifiers and letter case\<close>

text \<open>
  Claim C2 says that content identifiers are compared without regard to letter case, the
  catalog folding them when it is built. The source folds the name of the folder
  (line 193) and keeps the identifiers and the keys of the archived entries of the
  catalog as the document writes them (lines 90 and 123), while the keys of the titles
  are folded on both sides (lines 79 and 177). Evaluated on a catalog that writes
  \<^verbatim>\<open>CAFE0001\<close>: the catalog loads with the identifier in upper case; the folders
  \<^verbatim>\<open>cafe0001\<close> and \<^verbatim>\<open>CAFE0001\<close> are both reported as unknown content; and the
  folder \<^verbatim>\<open>cafe0003\<close>, archived under the key \<^verbatim>\<open>CAFE0003\<close>, is reported as
  unarchived.
\<close>

theorem catalog_content_id_not_folded:
  "loadJSONData (Some upper_case_catalog) \<lparr>Titles = []\<rparr> =
     Inr \<lparr>Titles = [(''abcd1234'', upper_case_data)]\<rparr> \<and>
   spec_equal_ignoring_case ''cafe0001'' ''CAFE0001'' \<and>
   content_step upper_case_data ''dump/TDATA/ABCD1234/$c'' (''cafe0001'', Dir (Some [])) =
     ([CheckingContentID ''cafe0001'',
       UnknownContent ''Game X'' ''dump/TDATA/ABCD1234/$c/cafe0001''], None) \<and>
   content_step upper_case_data ''dump/TDATA/ABCD1234/$c'' (''CAFE0001'', Dir (Some [])) =
     ([CheckingContentID ''cafe0001'',
       UnknownContent ''Game X'' ''dump/TDATA/ABCD1234/$c/CAFE0001''], None) \<and>
   content_step upper_case_data ''dump/TDATA/ABCD1234/$c'' (''cafe0003'', Dir (Some [])) =
     ([CheckingContentID ''cafe0003'', ContentIDKnown ''cafe0003'',
       UnarchivedContent ''Game X'' ''dump/TDATA/ABCD1234/$c/cafe0003''], None)"
  by code_simp

subsection \<open>When the catalog loads\<close>

text \<open>
  Loading fails on every input for which the specification says so (the parsed input is
  not an object, it lacks the titles, an update entry lacks its name or its hash):
  lemma \<open>spec_malformed_fails\<close>. Lemma \<open>loadJSONData_ok\<close> gives the inputs on which
  the loader returns.

  Claim C3 says that these are the only inputs on which building the catalog fails, and
  that on every other input it succeeds and fills each title record. Evaluated on a
  document that meets none of the conditions and gives a number as a content
  identifier: line 90 calls \<^verbatim>\<open>GetString\<close> on the number, which violates the
  assertion of the accessor, and no catalog is built; the process of the default scan
  ends there, after its first message. The member \<^verbatim>\<open>Title Name\<close> beside it is read
  only when it is a string (line 81).
\<close>

theorem number_content_id_aborts_load:
  "\<not> spec_malformed number_id_catalog \<and>
   loadJSONData (Some number_id_catalog) \<lparr>Titles = []\<rparr> = Inl AssertionFailed \<and>
   main False example_sha1 [] number_id_world = ([LoadingJSON], Aborted)"
  by code_simp

subsection \<open>Hashes of update files\<close>

text \<open>
  Claim C4 says that the digest of a file and the hashes of the catalog are compared as
  hexadecimal text without regard to letter case. The source compares the two strings
  with \<^verbatim>\<open>==\<close> (line 277); \<open>getSHA1Hash\<close> writes lower-case digits and the
  catalog's hash is kept as the document has it. A file whose digest is
  \<^verbatim>\<open>dead00...\<close> is reported as unknown against a catalog that lists
  \<^verbatim>\<open>DEAD00...\<close>.
\<close>

theorem hash_case_counterexample:
  "getSHA1Hash example_sha1 ''dump/TDATA/ABCD1234/$u/default.xbe'' (File (Some [0xDE, 0xAD])) =
     Inr ''dead000000000000000000000000000000000000'' \<and>
   map SHA1 (TitleUpdatesKnown upper_case_data) = [''DEAD000000000000000000000000000000000000''] \<and>
   spec_equal_ignoring_case ''dead000000000000000000000000000000000000''
     ''DEAD000000000000000000000000000000000000'' \<and>
   digest_classify example_sha1 upper_case_data ''abcd1234'' ''dump/TDATA/ABCD1234/$u''
     (''default.xbe'', File (Some [0xDE, 0xAD])) =
     [UnknownUpdate ''default.xbe'' ''dead000000000000000000000000000000000000''
        ''dump/TDATA/ABCD1234/$u/default.xbe'']"
  by code_simp

text \<open>
  Claim C4 as amended. For a file of the updates folder whose digest is computed, the
  digest is the lower-case hexadecimal text of the bytes of the hash, and the file is
  reported as a known update exactly when that text is equal, character for character,
  to the hash of some known update of the title; when no hash is equal to it, the file
  is reported as unknown together with this digest.
\<close>

theorem known_update_exact_hash:
  "fnode = File (Some bytes) \<and> fileHash = concat (map hex_byte (sha bytes)) \<Longrightarrow>
   ((\<exists>name. digest_classify sha data titleID sub (fileName, fnode) =
        [KnownUpdate (TitleName data) titleID name (sub @ ''/'' @ fileName) fileHash]) \<longleftrightarrow>
      (\<exists>u \<in> set (TitleUpdatesKnown data). SHA1 u = fileHash)) \<and>
   ((\<forall>u \<in> set (TitleUpdatesKnown data). SHA1 u \<noteq> fileHash) \<longrightarrow>
      digest_classify sha data titleID sub (fileName, fnode) =
        [UnknownUpdate fileName fileHash (sub @ ''/'' @ fileName)]) \<and>
   to_lower fileHash = fileHash"
proof (intro conjI impI)
  assume a: "fnode = File (Some bytes) \<and> fileHash = concat (map hex_byte (sha bytes))"
  then have h: "getSHA1Hash sha (sub @ ''/'' @ fileName) fnode = Inr fileHash"
    by (simp add: getSHA1Hash_File)
  show "(\<exists>name. digest_classify sha data titleID sub (fileName, fnode) =
        [KnownUpdate (TitleName data) titleID name (sub @ ''/'' @ fileName) fileHash]) \<longleftrightarrow>
      (\<exists>u \<in> set (TitleUpdatesKnown data). SHA1 u = fileHash)"
  proof (cases "find_knownUpdate (TitleUpdatesKnown data) fileHash")
    case None
    then have "\<forall>u \<in> set (TitleUpdatesKnown data). SHA1 u \<noteq> fileHash"
      by (simp add: find_knownUpdate_None)
    then show ?thesis
      using h None by (simp add: digest_classify_def Let_def)
  next
    case (Some u)
    then have "\<not> (\<forall>u \<in> set (TitleUpdatesKnown data). SHA1 u \<noteq> fileHash)"
      using find_knownUpdate_None [of "TitleUpdatesKnown data" fileHash] by simp
    then show ?thesis
      using h Some by (simp add: digest_classify_def Let_def)
  qed
  show "digest_classify sha data titleID sub (fileName, fnode) =
        [UnknownUpdate fileName fileHash (sub @ ''/'' @ fileName)]"
    if "\<forall>u \<in> set (TitleUpdatesKnown data). SHA1 u \<noteq> fileHash"
  proof -
    have "find_knownUpdate (TitleUpdatesKnown data) fileHash = None"
      using that by (simp add: find_knownUpdate_None)
    then show ?thesis using h by (simp add: digest_classify_def Let_def)
  qed
  show "to_lower fileHash = fileHash"
    using a by (simp add: to_lower_hex)
qed

theorem known_update_exact_hash_witness:
  "digest_classify example_sha1 example_data ''abcd1234'' ''dump/TDATA/ABCD1234/$u''
     (''other.xbx'', File (Some [0x01])) =
     [UnknownUpdate ''other.xbx'' ''0100000000000000000000000000000000000000''
        ''dump/TDATA/ABCD1234/$u/other.xbx''] \<and>
   to_lower ''0100000000000000000000000000000000000000'' =
     ''0100000000000000000000000000000000000000''"
proof -
  have h: "File (Some [0x01]) = File (Some [0x01]) \<and>
      ''0100000000000000000000000000000000000000'' =
        concat (map hex_byte (example_sha1 [0x01]))"
    by code_simp
  have n: "\<forall>u \<in> set (TitleUpdatesKnown example_data).
      SHA1 u \<noteq> ''0100000000000000000000000000000000000000''"
    by (simp add: example_data_def example_hash_def other_hash_def)
  note t = known_update_exact_hash [where fnode = "File (Some [0x01])" and bytes = "[0x01]"
      and sha = example_sha1 and data = example_data
      and fileHash = "''0100000000000000000000000000000000000000''"
      and titleID = "''abcd1234''" and sub = "''dump/TDATA/ABCD1234/$u''"
      and fileName = "''other.xbx''", OF h]
  from t n show ?thesis by simp
qed

subsection \<open>The exit status\<close>

text \<open>
  The status of the process, for arguments without \<^verbatim>\<open>-help\<close>: it is not zero exactly
  when the catalog does not load, or the run is the default scan and \<^verbatim>\<open>dump/TDATA\<close>
  is absent or an exception leaves the scan, or the run is the scan of drive X of a
  Windows build, the drive exists and an exception leaves the scan. A file that cannot
  be hashed throws nothing out of the scan, so it does not change the status.
\<close>

lemma run_scan_status:
  "nonzero_status (snd (run_scan sha fs directory titles)) \<longleftrightarrow>
   snd (fst (checkForContent sha fs directory titles)) \<noteq> None"
proof (cases "checkForContent sha fs directory titles")
  case (Pair r titles')
  obtain out thrown where r: "r = (out, thrown)" by (cases r)
  show ?thesis
    by (cases thrown) (simp_all add: Pair r run_scan_def nonzero_status_def)
qed

lemma main_help:
  "parse_args argv \<lparr>summarizeFlag = False, titleIDFlag = [], fatxplorer = False\<rparr> = None \<Longrightarrow>
   main win32 sha argv w = ([Usage], Returned 0)"
  by (simp add: main_def)

lemma main_exit_status:
  assumes "parse_args argv \<lparr>summarizeFlag = False, titleIDFlag = [], fatxplorer = False\<rparr> = Some fl"
  shows "nonzero_status (snd (main win32 sha argv w)) \<longleftrightarrow>
     isl (loadJSONData (catalog_file w) \<lparr>Titles = []\<rparr>) \<or>
     (titleIDFlag fl = [] \<and> \<not> summarizeFlag fl \<and>
      (if fatxplorer fl
       then win32 \<and> files w ''X:/'' \<noteq> None \<and>
            snd (fst (checkForContent sha (files w) ''X:/TDATA''
                   (projr (loadJSONData (catalog_file w) \<lparr>Titles = []\<rparr>)))) \<noteq> None
       else files w ''dump/TDATA'' = None \<or>
            snd (fst (checkForContent sha (files w) ''dump/TDATA''
                   (projr (loadJSONData (catalog_file w) \<lparr>Titles = []\<rparr>)))) \<noteq> None))"
proof (cases "loadJSONData (catalog_file w) \<lparr>Titles = []\<rparr>")
  case (Inl e)
  then show ?thesis
    using assms by (cases e) (simp_all add: main_def nonzero_status_def)
next
  case (Inr titles)
  show ?thesis
    using assms Inr
      run_scan_status [of sha "files w" "''X:/TDATA''" titles]
      run_scan_status [of sha "files w" "''dump/TDATA''" titles]
    by (simp add: main_def case_prod_beta) (auto simp: nonzero_status_def)
qed

text \<open>
  Claim C5 says that the exit status is not zero exactly when the catalog fails to load
  or the root directory that a scan needs is absent. Evaluated on a Windows build with
  the argument \<^verbatim>\<open>-fatxplorer\<close> and a catalog that loads: without a drive X, and with
  a drive X that has no \<^verbatim>\<open>TDATA\<close>, the process prints that the root is not found
  and returns zero, where the default scan returns one for a missing \<^verbatim>\<open>dump/TDATA\<close>.
\<close>

theorem fatxplorer_missing_root_exits_zero:
  "main True example_sha1 [''-fatxplorer''] empty_world =
     ([LoadingJSON, Banner, XDriveNotFound], Returned 0) \<and>
   main True example_sha1 [''-fatxplorer''] x_drive_world =
     ([LoadingJSON, Banner, CheckingForContent, DirectoryNotFound ''X:/TDATA''], Returned 0) \<and>
   main True example_sha1 [] empty_world = ([LoadingJSON, Banner, TDATANotFound], Returned 1) \<and>
   main False example_sha1 [] empty_world = ([LoadingJSON, Banner, TDATANotFound], Returned 1)"
  by code_simp

subsection \<open>The first match wins\<close>

text \<open>
  Claim C6. Ties are decided by the order of the catalog. For a folder whose identifier
  is a content identifier of the title: when \<open>m\<close> is the first archived entry that has
  the identifier as a key, the label found is the one \<open>m\<close> gives, whatever the entries
  after \<open>m\<close> hold, and it is the label reported (an empty label reports the content as
  unarchived). For a file of the updates folder whose digest is the hash of the known
  update \<open>u\<close> and of none before \<open>u\<close>, the name reported is that of \<open>u\<close> (without
  its prefix), whatever the known updates after \<open>u\<close> hold. Looking at an entry of the
  root leaves the catalog, and so the order of its sequences, as it was. (The files of a
  folder are listed only when its content is reported as unarchived; if the folder
  cannot be listed, the exception of the file system follows that message.)
\<close>

theorem first_match_wins:
  "(contains (ContentIDs data) (to_lower folderName) \<and>
    Archived data = before @ m # after \<and>
    (\<forall>a \<in> set before. map_find a (to_lower folderName) = None) \<and>
    map_find m (to_lower folderName) = Some label \<longrightarrow>
      find_archivedName (Archived data) (to_lower folderName) = label \<and>
      content_step data subDirDLC (folderName, Dir listing) =
        (if label \<noteq> []
         then ([CheckingContentID (to_lower folderName), ContentIDKnown (to_lower folderName),
                ArchivedContentFound (TitleName data) (subDirDLC @ ''/'' @ folderName) label],
               None)
         else (case listing of
                 Some fs \<Rightarrow>
                   (CheckingContentID (to_lower folderName) #
                    ContentIDKnown (to_lower folderName) #
                    UnarchivedContent (TitleName data) (subDirDLC @ ''/'' @ folderName) #
                    concat (map content_file_step fs), None)
               | None \<Rightarrow>
                   ([CheckingContentID (to_lower folderName),
                     ContentIDKnown (to_lower folderName),
                     UnarchivedContent (TitleName data) (subDirDLC @ ''/'' @ folderName)],
                    Some FilesystemError)))) \<and>
   (getSHA1Hash sha (subDirUpdates @ ''/'' @ fileName) fnode = Inr (SHA1 u) \<and>
    TitleUpdatesKnown data = ubefore @ u # uafter \<and>
    (\<forall>k \<in> set ubefore. SHA1 k \<noteq> SHA1 u) \<longrightarrow>
      digest_classify sha data titleID subDirUpdates (fileName, fnode) =
        [KnownUpdate (TitleName data) titleID (display_name (Name u))
           (subDirUpdates @ ''/'' @ fileName) (SHA1 u)]) \<and>
   snd (entry_step sha directory e titles) = titles"
proof (intro conjI impI)
  assume a: "contains (ContentIDs data) (to_lower folderName) \<and>
    Archived data = before @ m # after \<and>
    (\<forall>a \<in> set before. map_find a (to_lower folderName) = None) \<and>
    map_find m (to_lower folderName) = Some label"
  then show l: "find_archivedName (Archived data) (to_lower folderName) = label"
    by (simp add: find_archivedName_first)
  show "content_step data subDirDLC (folderName, Dir listing) =
        (if label \<noteq> []
         then ([CheckingContentID (to_lower folderName), ContentIDKnown (to_lower folderName),
                ArchivedContentFound (TitleName data) (subDirDLC @ ''/'' @ folderName) label],
               None)
         else (case listing of
                 Some fs \<Rightarrow>
                   (CheckingContentID (to_lower folderName) #
                    ContentIDKnown (to_lower folderName) #
                    UnarchivedContent (TitleName data) (subDirDLC @ ''/'' @ folderName) #
                    concat (map content_file_step fs), None)
               | None \<Rightarrow>
                   ([CheckingContentID (to_lower folderName),
                     ContentIDKnown (to_lower folderName),
                     UnarchivedContent (TitleName data) (subDirDLC @ ''/'' @ folderName)],
                    Some FilesystemError)))"
    using a l by (cases listing) (simp_all add: content_step_def Let_def)
next
  assume b: "getSHA1Hash sha (subDirUpdates @ ''/'' @ fileName) fnode = Inr (SHA1 u) \<and>
    TitleUpdatesKnown data = ubefore @ u # uafter \<and>
    (\<forall>k \<in> set ubefore. SHA1 k \<noteq> SHA1 u)"
  then have "find_knownUpdate (TitleUpdatesKnown data) (SHA1 u) = Some u"
    by (simp add: find_knownUpdate_first)
  then show "digest_classify sha data titleID subDirUpdates (fileName, fnode) =
        [KnownUpdate (TitleName data) titleID (display_name (Name u))
           (subDirUpdates @ ''/'' @ fileName) (SHA1 u)]"
    using b by (simp add: digest_classify_def Let_def)
next
  show "snd (entry_step sha directory e titles) = titles"
    by (rule entry_step_titles)
qed

theorem first_match_wins_witness:
  "content_step example_data ''dump/TDATA/ABCD1234/$c'' (''cafe0002'', Dir None) =
     ([CheckingContentID ''cafe0002'', ContentIDKnown ''cafe0002'',
       ArchivedContentFound ''Game X'' ''dump/TDATA/ABCD1234/$c/cafe0002'' ''Archive A''],
      None) \<and>
   digest_classify example_sha1 example_data ''abcd1234'' ''dump/TDATA/ABCD1234/$u''
     (''default.xbe'', File (Some [0xDE, 0xAD])) =
     [KnownUpdate ''Game X'' ''abcd1234'' '' Title Update 2''
        ''dump/TDATA/ABCD1234/$u/default.xbe'' ''dead000000000000000000000000000000000000'']"
proof -
  have a: "contains (ContentIDs example_data) (to_lower ''cafe0002'') \<and>
    Archived example_data =
      [ [(''beef0009'', ''Archive Z'')] ] @ [(''cafe0002'', ''Archive A'')] #
      [ [(''cafe0002'', ''Archive B'')] ] \<and>
    (\<forall>a \<in> set [ [(''beef0009'', ''Archive Z'')] ]. map_find a (to_lower ''cafe0002'') = None) \<and>
    map_find [(''cafe0002'', ''Archive A'')] (to_lower ''cafe0002'') = Some ''Archive A''"
    by code_simp
  have b: "getSHA1Hash example_sha1 (''dump/TDATA/ABCD1234/$u'' @ ''/'' @ ''default.xbe'')
      (File (Some [0xDE, 0xAD])) =
      Inr (SHA1 \<lparr>Name = ''XYZ: Title Update 2'', SHA1 = example_hash\<rparr>) \<and>
    TitleUpdatesKnown example_data =
      [\<lparr>Name = ''Other'', SHA1 = other_hash\<rparr>] @
      \<lparr>Name = ''XYZ: Title Update 2'', SHA1 = example_hash\<rparr> #
      [\<lparr>Name = ''Update B'', SHA1 = example_hash\<rparr>] \<and>
    (\<forall>k \<in> set [\<lparr>Name = ''Other'', SHA1 = other_hash\<rparr>].
       SHA1 k \<noteq> SHA1 \<lparr>Name = ''XYZ: Title Update 2'', SHA1 = example_hash\<rparr>)"
    by code_simp
  have l: "to_lower ''cafe0002'' = ''cafe0002''"
    by code_simp
  have d: "display_name ''XYZ: Title Update 2'' = '' Title Update 2''"
    by code_simp
  have n: "TitleName example_data = ''Game X''"
    by (simp add: example_data_def)
  note t = first_match_wins [where data = example_data and folderName = "''cafe0002''"
      and before = "[ [(''beef0009'', ''Archive Z'')] ]" and m = "[(''cafe0002'', ''Archive A'')]"
      and after = "[ [(''cafe0002'', ''Archive B'')] ]" and label = "''Archive A''"
      and subDirDLC = "''dump/TDATA/ABCD1234/$c''" and listing = None
      and subDirUpdates = "''dump/TDATA/ABCD1234/$u''"
      and sha = example_sha1 and fileName = "''default.xbe''"
      and fnode = "File (Some [0xDE, 0xAD])"
      and u = "\<lparr>Name = ''XYZ: Title Update 2'', SHA1 = example_hash\<rparr>"
      and ubefore = "[\<lparr>Name = ''Other'', SHA1 = other_hash\<rparr>]"
      and uafter = "[\<lparr>Name = ''Update B'', SHA1 = example_hash\<rparr>]"
      and titleID = "''abcd1234''"]
  from t a b l d n show ?thesis
    by (simp add: example_hash_def)
qed

subsection \<open>The name reported for a known update\<close>

text \<open>
  Claim C7. The name reported for a known update is the catalog's name without the text
  up to and including its first colon. For the name as such: a name without a colon
  stays as it is; of a name \<open>pre : rest\<close> whose part \<open>pre\<close> has no colon, \<open>rest\<close>
  remains, whatever it holds (a leading space, further colons);
  \<^verbatim>\<open>"XYZ: Title Update 2"\<close> becomes \<^verbatim>\<open>" Title Update 2"\<close>. For what is reported:
  when a regular file of the updates folder with an executable extension has the digest
  of the known update \<open>u\<close> that the lookup finds, the one message of the file carries
  the name of \<open>u\<close> unchanged if it has no colon, and \<open>rest\<close> if the name is
  \<open>pre : rest\<close> with no colon in \<open>pre\<close>. And the scan of the example dump, whose
  catalog names the update \<^verbatim>\<open>"XYZ: Title Update 2"\<close>, reports the file as
  \<^verbatim>\<open>" Title Update 2"\<close>, with the leading space.
\<close>

theorem display_name_strips_first_colon:
  "(CHR '':'' \<notin> set name \<longrightarrow> display_name name = name) \<and>
   (CHR '':'' \<notin> set pre \<longrightarrow> display_name (pre @ CHR '':'' # rest) = rest) \<and>
   display_name ''XYZ: Title Update 2'' = '' Title Update 2'' \<and>
   (is_regular_file fnode \<and>
    (path_extension fileName = ''.xbe'' \<or> path_extension fileName = ''.xbx'') \<and>
    getSHA1Hash sha (subDirUpdates @ ''/'' @ fileName) fnode = Inr fileHash \<and>
    find_knownUpdate (TitleUpdatesKnown data) fileHash = Some u \<longrightarrow>
      (CHR '':'' \<notin> set (Name u) \<longrightarrow>
         update_file_step sha data titleID subDirUpdates (fileName, fnode) =
           [KnownUpdate (TitleName data) titleID (Name u)
              (subDirUpdates @ ''/'' @ fileName) fileHash]) \<and>
      (\<forall>p r. Name u = p @ CHR '':'' # r \<and> CHR '':'' \<notin> set p \<longrightarrow>
         update_file_step sha data titleID subDirUpdates (fileName, fnode) =
           [KnownUpdate (TitleName data) titleID r
              (subDirUpdates @ ''/'' @ fileName) fileHash])) \<and>
   fst (checkForContent example_sha1 example_fs ''dump/TDATA'' example_titles) =
     ([FoundFolder ''Game X'',
       CheckingContentID ''cafe0001'', ContentIDKnown ''cafe0001'',
       UnarchivedContent ''Game X'' ''dump/TDATA/ABCD1234/$c/CAFE0001'',
       RecognizedBinary ''default.xbe'', UnrecognizedFile ''readme.txt'',
       CheckingContentID ''cafe0002'', ContentIDKnown ''cafe0002'',
       ArchivedContentFound ''Game X'' ''dump/TDATA/ABCD1234/$c/cafe0002'' ''Archive A'',
       CheckingContentID ''beef0003'',
       UnknownContent ''Game X'' ''dump/TDATA/ABCD1234/$c/beef0003'',
       KnownUpdate ''Game X'' ''abcd1234'' '' Title Update 2''
         ''dump/TDATA/ABCD1234/$u/default.xbe'' ''dead000000000000000000000000000000000000'',
       DigestError ''dump/TDATA/ABCD1234/$u/locked.xbe''
         ''Failed to open file: dump/TDATA/ABCD1234/$u/locked.xbe'',
       UnknownUpdate ''other.xbx'' ''0100000000000000000000000000000000000000''
         ''dump/TDATA/ABCD1234/$u/other.xbx'',
       UnknownTitle ''zzzz9999'' ''dump/TDATA''], None)"
proof (intro conjI impI allI)
  assume "CHR '':'' \<notin> set name"
  then have "string_find name (CHR '':'') = None"
    by (simp add: string_find_None)
  then show "display_name name = name"
    by (simp add: display_name_def)
next
  assume "CHR '':'' \<notin> set pre"
  then have "string_find (pre @ CHR '':'' # rest) (CHR '':'') = Some (length pre)"
    by (rule string_find_first)
  then show "display_name (pre @ CHR '':'' # rest) = rest"
    by (simp add: display_name_def substr_def)
next
  show "display_name ''XYZ: Title Update 2'' = '' Title Update 2''"
    by (simp add: display_name_def substr_def)
next
  assume a: "is_regular_file fnode \<and>
    (path_extension fileName = ''.xbe'' \<or> path_extension fileName = ''.xbx'') \<and>
    getSHA1Hash sha (subDirUpdates @ ''/'' @ fileName) fnode = Inr fileHash \<and>
    find_knownUpdate (TitleUpdatesKnown data) fileHash = Some u"
  then have step: "update_file_step sha data titleID subDirUpdates (fileName, fnode) =
      [KnownUpdate (TitleName data) titleID (display_name (Name u))
         (subDirUpdates @ ''/'' @ fileName) fileHash]"
    by (auto simp: update_file_step_def digest_classify_def Let_def)
  show "update_file_step sha data titleID subDirUpdates (fileName, fnode) =
           [KnownUpdate (TitleName data) titleID (Name u)
              (subDirUpdates @ ''/'' @ fileName) fileHash]"
    if "CHR '':'' \<notin> set (Name u)"
  proof -
    have "string_find (Name u) (CHR '':'') = None"
      using that by (simp add: string_find_None)
    then show ?thesis by (simp add: step display_name_def)
  qed
  show "update_file_step sha data titleID subDirUpdates (fileName, fnode) =
           [KnownUpdate (TitleName data) titleID r
              (subDirUpdates @ ''/'' @ fileName) fileHash]"
    if "Name u = p @ CHR '':'' # r \<and> CHR '':'' \<notin> set p" for p r
  proof -
    have "string_find (p @ CHR '':'' # r) (CHR '':'') = Some (length p)"
      using that by (simp add: string_find_first)
    then show ?thesis using that by (simp add: step display_name_def substr_def)
  qed
next
  show "fst (checkForContent example_sha1 example_fs ''dump/TDATA'' example_titles) =
     ([FoundFolder ''Game X'',
       CheckingContentID ''cafe0001'', ContentIDKnown ''cafe0001'',
       UnarchivedContent ''Game X'' ''dump/TDATA/ABCD1234/$c/CAFE0001'',
       RecognizedBinary ''default.xbe'', UnrecognizedFile ''readme.txt'',
       CheckingContentID ''cafe0002'', ContentIDKnown ''cafe0002'',
       ArchivedContentFound ''Game X'' ''dump/TDATA/ABCD1234/$c/cafe0002'' ''Archive A'',
       CheckingContentID ''beef0003'',
       UnknownContent ''Game X'' ''dump/TDATA/ABCD1234/$c/beef0003'',
       KnownUpdate ''Game X'' ''abcd1234'' '' Title Update 2''
         ''dump/TDATA/ABCD1234/$u/default.xbe'' ''dead000000000000000000000000000000000000'',
       DigestError ''dump/TDATA/ABCD1234/$u/locked.xbe''
         ''Failed to open file: dump/TDATA/ABCD1234/$u/locked.xbe'',
       UnknownUpdate ''other.xbx'' ''0100000000000000000000000000000000000000''
         ''dump/TDATA/ABCD1234/$u/other.xbx'',
       UnknownTitle ''zzzz9999'' ''dump/TDATA''], None)"
    by code_simp
qed

theorem display_name_strips_first_colon_witness:
  "CHR '':'' \<notin> set ''Update A'' \<and> display_name ''Update A'' = ''Update A'' \<and>
   CHR '':'' \<notin> set ''XYZ'' \<and> display_name (''XYZ'' @ CHR '':'' # '' TU: 2'') = '' TU: 2'' \<and>
   update_file_step example_sha1 example_data ''abcd1234'' ''dump/TDATA/ABCD1234/$u''
     (''default.xbe'', File (Some [0xDE, 0xAD])) =
     [KnownUpdate ''Game X'' ''abcd1234'' '' Title Update 2''
        ''dump/TDATA/ABCD1234/$u/default.xbe'' ''dead000000000000000000000000000000000000'']"
proof -
  have a: "is_regular_file (File (Some [0xDE, 0xAD])) \<and>
    (path_extension ''default.xbe'' = ''.xbe'' \<or> path_extension ''default.xbe'' = ''.xbx'') \<and>
    getSHA1Hash example_sha1 (''dump/TDATA/ABCD1234/$u'' @ ''/'' @ ''default.xbe'')
      (File (Some [0xDE, 0xAD])) = Inr ''dead000000000000000000000000000000000000'' \<and>
    find_knownUpdate (TitleUpdatesKnown example_data) ''dead000000000000000000000000000000000000'' =
      Some \<lparr>Name = ''XYZ: Title Update 2'', SHA1 = example_hash\<rparr>"
    by code_simp
  have n: "Name \<lparr>Name = ''XYZ: Title Update 2'', SHA1 = example_hash\<rparr> =
      ''XYZ'' @ CHR '':'' # '' Title Update 2'' \<and> CHR '':'' \<notin> set ''XYZ''"
    by simp
  have g: "TitleName example_data = ''Game X''"
    by (simp add: example_data_def)
  note t = display_name_strips_first_colon [where name = "''Update A''" and pre = "''XYZ''"
      and rest = "'' TU: 2''" and fnode = "File (Some [0xDE, 0xAD])"
      and fileName = "''default.xbe''" and sha = example_sha1
      and subDirUpdates = "''dump/TDATA/ABCD1234/$u''"
      and fileHash = "''dead000000000000000000000000000000000000''"
      and data = example_data and titleID = "''abcd1234''"
      and u = "\<lparr>Name = ''XYZ: Title Update 2'', SHA1 = example_hash\<rparr>"]
  from t a have
    "\<forall>p r. Name \<lparr>Name = ''XYZ: Title Update 2'', SHA1 = example_hash\<rparr> = p @ CHR '':'' # r \<and>
        CHR '':'' \<notin> set p \<longrightarrow>
      update_file_step example_sha1 example_data ''abcd1234'' ''dump/TDATA/ABCD1234/$u''
        (''default.xbe'', File (Some [0xDE, 0xAD])) =
        [KnownUpdate (TitleName example_data) ''abcd1234'' r
           (''dump/TDATA/ABCD1234/$u'' @ ''/'' @ ''default.xbe'')
           ''dead000000000000000000000000000000000000'']"
    by blast
  from this [rule_format, OF n] g have
    "update_file_step example_sha1 example_data ''abcd1234'' ''dump/TDATA/ABCD1234/$u''
     (''default.xbe'', File (Some [0xDE, 0xAD])) =
     [KnownUpdate ''Game X'' ''abcd1234'' '' Title Update 2''
        ''dump/TDATA/ABCD1234/$u/default.xbe'' ''dead000000000000000000000000000000000000'']"
    by simp
  moreover from t have "display_name ''Update A'' = ''Update A''"
    "display_name (''XYZ'' @ CHR '':'' # '' TU: 2'') = '' TU: 2''"
    by simp_all
  ultimately show ?thesis by simp
qed

subsection \<open>A file that cannot be hashed\<close>




subsection \<open>The scan leaves the catalog as it was\<close>

text \<open>
  Claim C9. The scan takes the catalog by a reference through which it could write, and
  never does: whatever the file system holds, the catalog after \<open>checkForContent\<close> is
  the catalog it was given, also when an exception leaves the scan; and the only
  exception that leaves it is the one of the file system.
\<close>

theorem scan_keeps_catalog:
  "snd (checkForContent sha fs directory titles) = titles \<and>
   (snd (fst (checkForContent sha fs directory titles)) = None \<or>
    snd (fst (checkForContent sha fs directory titles)) = Some FilesystemError)"
proof (cases "fs directory")
  case None
  then show ?thesis by (simp add: checkForContent_def)
next
  case (Some root)
  show ?thesis
  proof (cases "directory_iterator root")
    case (Inl e)
    then show ?thesis
      using Some directory_iterator_thrown [OF Inl] by (simp add: checkForContent_def)
  next
    case (Inr es)
    have "snd (run_all (map (\<lambda>e. fst (entry_step sha directory e titles)) es)) = None \<or>
          snd (run_all (map (\<lambda>e. fst (entry_step sha directory e titles)) es)) =
            Some FilesystemError"
      by (rule run_all_thrown) (simp add: entry_step_thrown)
    then show ?thesis
      using Some Inr by (simp add: checkForContent_def root_loop_run_all)
  qed
qed

theorem scan_keeps_catalog_witness:
  "snd (checkForContent example_sha1 example_fs ''dump/TDATA'' example_titles) =
     example_titles \<and>
   snd (checkForContent example_sha1 locked_fs ''dump/TDATA'' example_titles) =
     example_titles \<and>
   snd (fst (checkForContent example_sha1 locked_fs ''dump/TDATA'' example_titles)) =
     Some FilesystemError"
proof -
  have thrown:
    "snd (fst (checkForContent example_sha1 locked_fs ''dump/TDATA'' example_titles)) \<noteq> None"
    by code_simp
  show ?thesis
    using thrown
      scan_keeps_catalog [where sha = example_sha1 and fs = example_fs
        and directory = "''dump/TDATA''" and titles = example_titles]
      scan_keeps_catalog [where sha = example_sha1 and fs = locked_fs
        and directory = "''dump/TDATA''" and titles = example_titles]
    by auto
qed

subsection \<open>Which entries of the root are looked at\<close>

text \<open>
  Claim C10. Of the entries of the scanned root, only the directories whose name has
  exactly eight characters are candidates for a title folder: the scan of the root is
  the sequence of the steps of these entries, in their order (so, when none of them
  throws, its output is their outputs one after the other); any other entry (a file, a
  directory with a name of another length) prints nothing, throws nothing and leaves
  the catalog alone, and every candidate prints something (a known title its folder
  message, an unknown one the message that the title is not in the catalog).
\<close>

theorem root_filtering:
  "fs directory = Some (Dir (Some es)) \<Longrightarrow>
   checkForContent sha fs directory titles =
     (run_all (map (\<lambda>e. fst (entry_step sha directory e titles))
        (filter (\<lambda>e. is_directory (snd e) \<and> length (fst e) = 8) es)), titles) \<and>
   ((\<forall>e \<in> set es. snd (fst (entry_step sha directory e titles)) = None) \<longrightarrow>
      checkForContent sha fs directory titles =
        ((concat (map (\<lambda>e. fst (fst (entry_step sha directory e titles)))
            (filter (\<lambda>e. is_directory (snd e) \<and> length (fst e) = 8) es)), None), titles)) \<and>
   (\<forall>e. \<not> (is_directory (snd e) \<and> length (fst e) = 8) \<longrightarrow>
        entry_step sha directory e titles = (([], None), titles)) \<and>
   (\<forall>e. is_directory (snd e) \<and> length (fst e) = 8 \<longrightarrow>
        fst (fst (entry_step sha directory e titles)) \<noteq> [])"
proof (intro conjI allI impI)
  assume root: "fs directory = Some (Dir (Some es))"
  have skip: "run_all (map (\<lambda>e. fst (entry_step sha directory e titles))
          (filter (\<lambda>e. is_directory (snd e) \<and> length (fst e) = 8) es)) =
        run_all (map (\<lambda>e. fst (entry_step sha directory e titles)) es)"
    by (rule run_all_filter_skip) (simp add: entry_step_skip)
  then show scan: "checkForContent sha fs directory titles =
     (run_all (map (\<lambda>e. fst (entry_step sha directory e titles))
        (filter (\<lambda>e. is_directory (snd e) \<and> length (fst e) = 8) es)), titles)"
    using root by (simp add: checkForContent_def root_loop_run_all)
  show "checkForContent sha fs directory titles =
        ((concat (map (\<lambda>e. fst (fst (entry_step sha directory e titles)))
            (filter (\<lambda>e. is_directory (snd e) \<and> length (fst e) = 8) es)), None), titles)"
    if quiet: "\<forall>e \<in> set es. snd (fst (entry_step sha directory e titles)) = None"
  proof -
    have "\<forall>r \<in> set (map (\<lambda>e. fst (entry_step sha directory e titles))
          (filter (\<lambda>e. is_directory (snd e) \<and> length (fst e) = 8) es)). snd r = None"
      using quiet by simp
    from run_all_append [OF this, of "[]"] show ?thesis
      using scan by (simp add: comp_def)
  qed
next
  fix e :: "string \<times> node"
  assume "\<not> (is_directory (snd e) \<and> length (fst e) = 8)"
  then show "entry_step sha directory e titles = (([], None), titles)"
    by (rule entry_step_skip)
next
  fix e :: "string \<times> node"
  assume "is_directory (snd e) \<and> length (fst e) = 8"
  then show "fst (fst (entry_step sha directory e titles)) \<noteq> []"
    by (rule entry_step_candidate)
qed

theorem root_filtering_witness:
  "example_fs ''dump/TDATA'' = Some (Dir (Some example_root)) \<and>
   entry_step example_sha1 ''dump/TDATA'' (''short'', Dir (Some [])) example_titles =
     (([], None), example_titles) \<and>
   entry_step example_sha1 ''dump/TDATA'' (''FILE8888'', File (Some [])) example_titles =
     (([], None), example_titles) \<and>
   fst (fst (entry_step example_sha1 ''dump/TDATA'' (''ZZZZ9999'', Dir (Some [])) example_titles))
     \<noteq> [] \<and>
   checkForContent example_sha1 example_fs ''dump/TDATA'' example_titles =
     (run_all (map (\<lambda>e. fst (entry_step example_sha1 ''dump/TDATA'' e example_titles))
        (filter (\<lambda>e. is_directory (snd e) \<and> length (fst e) = 8) example_root)),
      example_titles)"
proof -
  have root: "example_fs ''dump/TDATA'' = Some (Dir (Some example_root))"
    by (simp add: example_fs_def)
  note t = root_filtering [where fs = example_fs and directory = "''dump/TDATA''"
      and es = example_root and sha = example_sha1 and titles = example_titles, OF root]
  from t have skip: "\<forall>e. \<not> (is_directory (snd e) \<and> length (fst e) = 8) \<longrightarrow>
      entry_step example_sha1 ''dump/TDATA'' e example_titles = (([], None), example_titles)"
    by blast
  from t have cand: "\<forall>e. is_directory (snd e) \<and> length (fst e) = 8 \<longrightarrow>
      fst (fst (entry_step example_sha1 ''dump/TDATA'' e example_titles)) \<noteq> []"
    by blast
  from t have scan: "checkForContent example_sha1 example_fs ''dump/TDATA'' example_titles =
     (run_all (map (\<lambda>e. fst (entry_step example_sha1 ''dump/TDATA'' e example_titles))
        (filter (\<lambda>e. is_directory (snd e) \<and> length (fst e) = 8) example_root)),
      example_titles)"
    by blast
  have a: "entry_step example_sha1 ''dump/TDATA'' (''short'', Dir (Some [])) example_titles =
     (([], None), example_titles)"
    using skip [rule_format, of "(''short'', Dir (Some []))"] by simp
  have b: "entry_step example_sha1 ''dump/TDATA'' (''FILE8888'', File (Some [])) example_titles =
     (([], None), example_titles)"
    using skip [rule_format, of "(''FILE8888'', File (Some []))"] by simp
  have c: "fst (fst (entry_step example_sha1 ''dump/TDATA'' (''ZZZZ9999'', Dir (Some []))
      example_titles)) \<noteq> []"
    using cand [rule_format, of "(''ZZZZ9999'', Dir (Some []))"] by simp
  from root a b c scan show ?thesis by simp
qed

end
